theory Spec2Isabelle
  imports Main "HOL-Library.AList" "HOL-Library.Sublist"
begin

section \<open>Trace-Creator: the task execution orchestrator of \<^verbatim>\<open>trace-creator.py\<close>\<close>

text \<open>
  The script runs under Python 3. A Python \<^verbatim>\<open>str\<close> is modelled as a \<^typ>\<open>string\<close> with one
  \<^typ>\<open>char\<close> per code point (code points below 256), a Python \<^verbatim>\<open>bytes\<close> value as a
  \<^typ>\<open>string\<close> with one \<^typ>\<open>char\<close> per byte. Exceptions are values of the type \<open>error\<close>;
  \<open>LaunchError\<close> stands for the \<^verbatim>\<open>OSError\<close> of a program that cannot be started. A
  function with effects takes the state of the world and returns its result, or the
  exception it raises, with the new state. The console lines printed with \<^verbatim>\<open>cprint\<close>
  are not part of the model, nor are the parsing of the command line and of the
  configuration file.
\<close>

subsection \<open>Python values and exceptions\<close>

type_synonym bytes = string

datatype error =
    NameError
  | TypeError
  | ValueError
  | OverflowError
  | IndexError
  | SSHException
  | LaunchError
  | FileExistsError
  | IsADirectoryError
  | NotADirectoryError
  | FileNotFoundError
  | ShutilError

text \<open>
  What a stream read hands back. The real collaborators (\<^verbatim>\<open>ChannelFile.read\<close> of the
  remote-shell library, \<^verbatim>\<open>Popen.communicate\<close> on pipes opened without a text mode) return
  \<^verbatim>\<open>bytes\<close>; a substituted transport may return \<^verbatim>\<open>str\<close>.
\<close>

datatype pyobj = Str string | Bytes bytes

fun payload :: "pyobj \<Rightarrow> string" where
  "payload (Str s) = s"
| "payload (Bytes b) = b"

text \<open>Truth value of a \<^verbatim>\<open>str\<close> or \<^verbatim>\<open>bytes\<close> object in a condition: non-empty.\<close>

definition truthy :: "pyobj \<Rightarrow> bool" where
  "truthy v = (payload v \<noteq> [])"

subsection \<open>Identity namer: \<^verbatim>\<open>get_task_id\<close>\<close>

text \<open>
  \<^verbatim>\<open>str.lower\<close> on code points below 256: the letters A--Z and the upper-case letters of the
  Latin-1 block (192--222 except the multiplication sign 215) move up by 32.
\<close>

definition lower_char :: "char \<Rightarrow> char" where
  "lower_char c =
     (let n = (of_char c :: nat)
      in if (65 \<le> n \<and> n \<le> 90) \<or> (192 \<le> n \<and> n \<le> 222 \<and> n \<noteq> 215)
         then char_of (n + 32) else c)"

definition str_lower :: "string \<Rightarrow> string" where
  "str_lower s = map lower_char s"

text \<open>
  The character class of the regular expression in \<^verbatim>\<open>get_task_id\<close>:
  space and \<^verbatim>\<open>@ # $ % ^ & * < > { } : | ;\<close>, the single quote (39), the backslash (92),
  the double quote (34) and the slash.
\<close>

definition unsafe_chars :: "char list" where
  "unsafe_chars =
     [CHR '' '', CHR ''@'', CHR ''#'', CHR ''$'', CHR ''%'', CHR ''^'', CHR ''&'', CHR ''*'',
      CHR ''<'', CHR ''>'', CHR ''{'', CHR ''}'', CHR '':'', CHR ''|'', CHR '';'',
      CHR 0x27, CHR 0x5C, CHR 0x22, CHR ''/'']"

definition unsafe :: "char \<Rightarrow> bool" where
  "unsafe c = (c \<in> set unsafe_chars)"

text \<open>\<^verbatim>\<open>re.sub(r'[...]', r'_', s)\<close>: every match of the one-character class becomes an underscore.\<close>

definition re_sub_unsafe :: "string \<Rightarrow> string" where
  "re_sub_unsafe s = map (\<lambda>c. if unsafe c then CHR ''_'' else c) s"

record host_configuration =
  ip :: string
  hc_command :: string

text \<open>
  A task of the configuration file. The keys \<^verbatim>\<open>name\<close> and \<^verbatim>\<open>command\<close> are always read;
  \<^verbatim>\<open>filter\<close> and \<^verbatim>\<open>configuration\<close> are tested with \<^verbatim>\<open>in\<close> before they are read.
\<close>

record task =
  name :: string
  command :: string
  filter_expr :: "string option"
  configuration :: "host_configuration list option"

definition get_task_id :: "task \<Rightarrow> string \<Rightarrow> string" where
  "get_task_id t timestamp =
     (let task_id = timestamp @ ''-'' @ str_lower (take 50 (name t))
      in re_sub_unsafe task_id)"

text \<open>
  The timestamp of a task: \<^verbatim>\<open>time.strftime("%Y-%m-%d_%H-%M-%S")\<close> of the local time.
\<close>

record struct_time =
  tm_year :: nat
  tm_mon :: nat
  tm_mday :: nat
  tm_hour :: nat
  tm_min :: nat
  tm_sec :: nat

definition digit_char :: "nat \<Rightarrow> char" where
  "digit_char d = ''0123456789'' ! (d mod 10)"

fun decimal :: "nat \<Rightarrow> string" where
  "decimal n = (if n < 10 then [digit_char n] else decimal (n div 10) @ [digit_char (n mod 10)])"

declare decimal.simps [simp del]

definition pad2 :: "nat \<Rightarrow> string" where
  "pad2 n = (if n < 10 then CHR ''0'' # decimal n else decimal n)"

definition strftime :: "struct_time \<Rightarrow> string" where
  "strftime tm =
     decimal (tm_year tm) @ ''-'' @ pad2 (tm_mon tm) @ ''-'' @ pad2 (tm_mday tm) @ ''_'' @
     pad2 (tm_hour tm) @ ''-'' @ pad2 (tm_min tm) @ ''-'' @ pad2 (tm_sec tm)"

subsection \<open>\<^verbatim>\<open>shlex.split\<close>\<close>

text \<open>
  \<^verbatim>\<open>shlex.split(s)\<close> runs the lexer of the standard library in POSIX mode with
  \<^verbatim>\<open>whitespace_split\<close> set and no comment characters. The lexer reads one character at a
  time; its state is \<^verbatim>\<open>' '\<close> (between tokens), \<^verbatim>\<open>'a'\<close> (in a word), a quote character
  (inside quotes) or the escape character (after a backslash).
\<close>

datatype lex_state = Between | InWord | InQuote char | InEscape char

record lexer =
  state :: lex_state
  escapedstate :: lex_state
  token :: string
  quoted :: bool
  emitted :: "string list"

definition whitespace :: "char list" where
  "whitespace = [CHR '' '', CHR 0x09, CHR 0x0D, CHR 0x0A]"

definition quotes :: "char list" where
  "quotes = [CHR 0x27, CHR 0x22]"

definition escape :: "char list" where
  "escape = [CHR 0x5C]"

definition escapedquotes :: "char list" where
  "escapedquotes = [CHR 0x22]"

definition lexer_init :: lexer where
  "lexer_init = \<lparr>state = Between, escapedstate = Between, token = [], quoted = False, emitted = []\<rparr>"

text \<open>
  Leaving \<^verbatim>\<open>read_token\<close> with a token: the token joins the result, and the next call
  starts with an empty token, \<^verbatim>\<open>quoted = False\<close> and \<^verbatim>\<open>escapedstate = ' '\<close>.
\<close>

definition emit :: "lexer \<Rightarrow> lexer" where
  "emit l = l\<lparr>emitted := emitted l @ [token l], token := [], quoted := False,
              escapedstate := Between\<rparr>"

text \<open>One turn of the loop of \<^verbatim>\<open>read_token\<close> on the character \<open>c\<close>.\<close>

definition read_char :: "lexer \<Rightarrow> char \<Rightarrow> lexer" where
  "read_char l c =
     (case state l of
        Between \<Rightarrow>
          if c \<in> set whitespace then
            (if token l \<noteq> [] \<or> quoted l then emit l else l)
          else if c \<in> set escape then l\<lparr>escapedstate := InWord, state := InEscape c\<rparr>
          else if c \<in> set quotes then l\<lparr>state := InQuote c\<rparr>
          else l\<lparr>token := [c], state := InWord\<rparr>
      | InQuote q \<Rightarrow>
          if c = q then l\<lparr>quoted := True, state := InWord\<rparr>
          else if c \<in> set escape \<and> q \<in> set escapedquotes then
            l\<lparr>quoted := True, escapedstate := InQuote q, state := InEscape c\<rparr>
          else l\<lparr>quoted := True, token := token l @ [c]\<rparr>
      | InEscape e \<Rightarrow>
          (case escapedstate l of
             InQuote q \<Rightarrow>
               if c \<noteq> e \<and> c \<noteq> q then l\<lparr>token := token l @ [e, c], state := InQuote q\<rparr>
               else l\<lparr>token := token l @ [c], state := InQuote q\<rparr>
           | s \<Rightarrow> l\<lparr>token := token l @ [c], state := s\<rparr>)
      | InWord \<Rightarrow>
          if c \<in> set whitespace then
            (if token l \<noteq> [] \<or> quoted l then emit (l\<lparr>state := Between\<rparr>)
             else l\<lparr>state := Between\<rparr>)
          else if c \<in> set quotes then l\<lparr>state := InQuote c\<rparr>
          else if c \<in> set escape then l\<lparr>escapedstate := InWord, state := InEscape c\<rparr>
          else l\<lparr>token := token l @ [c]\<rparr>)"

text \<open>
  The end of the input: inside quotes and after a backslash the lexer raises
  \<^verbatim>\<open>ValueError\<close>; otherwise the pending token is returned unless it is empty and unquoted.
\<close>

definition read_eof :: "lexer \<Rightarrow> error + string list" where
  "read_eof l =
     (case state l of
        InQuote q \<Rightarrow> Inl ValueError
      | InEscape e \<Rightarrow> Inl ValueError
      | _ \<Rightarrow> Inr (if token l \<noteq> [] \<or> quoted l then emitted l @ [token l] else emitted l))"

definition shlex_split :: "string \<Rightarrow> error + string list" where
  "shlex_split s = read_eof (foldl read_char lexer_init s)"

subsection \<open>The file system\<close>

text \<open>
  A directory is the list of its entries in the order a listing yields them; an entry is a
  file with its content or a directory. Names are single path components.
\<close>

datatype node = File bytes | Dir "(string \<times> node) list"

type_synonym dir = "(string \<times> node) list"

text \<open>\<^verbatim>\<open>Path.exists\<close> and \<^verbatim>\<open>Path.mkdir\<close> for the entry \<open>n\<close> of the directory \<open>d\<close>.\<close>

definition path_exists :: "dir \<Rightarrow> string \<Rightarrow> bool" where
  "path_exists d n = (map_of d n \<noteq> None)"

definition mkdir :: "dir \<Rightarrow> string \<Rightarrow> error + dir" where
  "mkdir d n = (if path_exists d n then Inl FileExistsError else Inr (d @ [(n, Dir [])]))"

text \<open>
  \<^verbatim>\<open>open('w')\<close>: a text file for writing. The file is created, or cut to length zero when
  it exists; a directory at the path is an error.
\<close>

definition open_w :: "dir \<Rightarrow> string \<Rightarrow> error + dir" where
  "open_w d n =
     (case map_of d n of
        Some (Dir sub) \<Rightarrow> Inl IsADirectoryError
      | _ \<Rightarrow> Inr (AList.update n (File []) d))"

text \<open>
  \<^verbatim>\<open>write\<close> on a text file takes a \<^verbatim>\<open>str\<close> and nothing else. The text is encoded with
  the encoding of the locale, UTF-8: a code point below 128 is one byte, a code point from
  128 to 255 two bytes.
\<close>

definition utf8_char :: "char \<Rightarrow> bytes" where
  "utf8_char c =
     (let n = (of_char c :: nat)
      in if n < 128 then [c] else [char_of (192 + n div 64), char_of (128 + n mod 64)])"

definition utf8_encode :: "string \<Rightarrow> bytes" where
  "utf8_encode s = concat (map utf8_char s)"

fun text_write :: "pyobj \<Rightarrow> error + bytes" where
  "text_write (Str s) = Inr (utf8_encode s)"
| "text_write (Bytes b) = Inl TypeError"

text \<open>
  The block \<^verbatim>\<open>with path.open('w') as f: f.write(v)\<close> on the entry \<open>n\<close> of \<open>d\<close>. The
  file is closed when the block is left, also by an exception.
\<close>

definition write_text :: "string \<Rightarrow> pyobj \<Rightarrow> dir \<Rightarrow> (error + unit) \<times> dir" where
  "write_text n v d =
     (case open_w d n of
        Inl e \<Rightarrow> (Inl e, d)
      | Inr d1 \<Rightarrow>
          (case text_write v of
             Inl e \<Rightarrow> (Inl e, d1)
           | Inr s \<Rightarrow> (Inr (), AList.update n (File s) d1)))"

text \<open>An operation on the content of the entry \<open>n\<close> of \<open>d\<close>, which has to be a directory.\<close>

definition in_subdir ::
  "string \<Rightarrow> (dir \<Rightarrow> (error + unit) \<times> dir) \<Rightarrow> dir \<Rightarrow> (error + unit) \<times> dir" where
  "in_subdir n f d =
     (case map_of d n of
        None \<Rightarrow> (Inl FileNotFoundError, d)
      | Some (File c) \<Rightarrow> (Inl NotADirectoryError, d)
      | Some (Dir sub) \<Rightarrow> (case f sub of (r, sub') \<Rightarrow> (r, AList.update n (Dir sub') d)))"

text \<open>
  \<^verbatim>\<open>shutil.move(src, dst)\<close> of the entry \<open>x\<close> named \<open>n\<close> to the path \<open>n\<close> of the directory
  \<open>dst\<close>; the result is the new content of \<open>dst\<close>. When \<open>dst/n\<close> is a directory the entry
  is moved inside it, unless the name is taken there. A file replaces a file. A directory
  cannot replace a file.
\<close>

definition shutil_move :: "string \<Rightarrow> node \<Rightarrow> dir \<Rightarrow> error + dir" where
  "shutil_move n x dst =
     (case map_of dst n of
        Some (Dir sub) \<Rightarrow>
          if path_exists sub n then Inl ShutilError
          else Inr (AList.update n (Dir (sub @ [(n, x)])) dst)
      | Some (File c) \<Rightarrow>
          (case x of
             File c' \<Rightarrow> Inr (AList.update n (File c') dst)
           | Dir sub \<Rightarrow> Inl FileExistsError)
      | None \<Rightarrow> Inr (dst @ [(n, x)]))"

subsection \<open>The world of a run\<close>

datatype event =
    SshConnect string
  | SshExec string string
  | SshClose string
  | CaptureStart "string list"
  | CommandStart "string list"
  | CommandExit int
  | Sleep int
  | CaptureTerminate
  | Move string

text \<open>
  The state the script works on: the content of the output directory
  (\<^verbatim>\<open>args.output_directory\<close>), the content of the capture directory, the module-global
  variable \<^verbatim>\<open>task\<close> (unbound until the loop of the main block binds it), the hosts with an
  open remote-shell session, and the calls made so far to the collaborators, in order.
  Both directories exist: the main block creates them before the first task.
\<close>

record world =
  out_dir :: dir
  cap_dir :: dir
  g_task :: "task option"
  sessions :: "string list"
  trace :: "event list"

text \<open>
  What the collaborators answer: the local time (it may depend on what has happened so
  far), whether a remote-shell connection to a host succeeds, what the two streams of a
  remote command yield when read, whether a local process can be launched, the exit code
  and the two streams of a local command, and the entries a capture process launched with
  an argument list leaves in the capture directory.
\<close>

record env =
  localtime :: "event list \<Rightarrow> struct_time"
  ssh_connect :: "string \<Rightarrow> string \<Rightarrow> string \<Rightarrow> bool"
  ssh_exec :: "string \<Rightarrow> string \<Rightarrow> pyobj \<times> pyobj"
  popen :: "string list \<Rightarrow> bool"
  communicate :: "string list \<Rightarrow> int \<times> pyobj \<times> pyobj"
  capture_writes :: "string list \<Rightarrow> dir"

record args =
  interface :: string
  delay :: int
  username :: string
  password :: string

type_synonym step = "world \<Rightarrow> (error + unit) \<times> world"

text \<open>One statement after another: an exception of the first skips the second.\<close>

definition and_then :: "step \<Rightarrow> step \<Rightarrow> step" where
  "and_then m k w = (case m w of (Inl e, w') \<Rightarrow> (Inl e, w') | (Inr u, w') \<Rightarrow> k w')"

definition log_event :: "event list \<Rightarrow> world \<Rightarrow> world" where
  "log_event es w = w\<lparr>trace := trace w @ es\<rparr>"

text \<open>A file-system operation on the output directory.\<close>

definition on_out_dir :: "(dir \<Rightarrow> (error + unit) \<times> dir) \<Rightarrow> step" where
  "on_out_dir f w = (case f (out_dir w) of (r, d) \<Rightarrow> (r, w\<lparr>out_dir := d\<rparr>))"

text \<open>\<^verbatim>\<open>if not directory_name.exists(): directory_name.mkdir()\<close>\<close>

definition ensure_dir :: "string \<Rightarrow> dir \<Rightarrow> (error + unit) \<times> dir" where
  "ensure_dir n d =
     (if \<not> path_exists d n then
        (case mkdir d n of Inl e \<Rightarrow> (Inl e, d) | Inr d' \<Rightarrow> (Inr (), d'))
      else (Inr (), d))"

text \<open>\<^verbatim>\<open>subprocess.Popen(argv, ...)\<close>: an empty argument list has no program to run.\<close>

definition popen_check :: "env \<Rightarrow> string list \<Rightarrow> error + unit" where
  "popen_check e argv =
     (if argv = [] then Inl IndexError
      else if \<not> popen e argv then Inl LaunchError
      else Inr ())"

subsection \<open>Remote host configurator: \<^verbatim>\<open>host_configure\<close>\<close>

text \<open>
  The name \<^verbatim>\<open>task\<close> in the body is not a parameter: it is looked up among the module
  globals when the line is reached. The error file is written from \<^verbatim>\<open>stdout\<close>, as in the
  source. The session is closed by the last statement only. The host is an address or a
  host name, a single path component.
\<close>

definition host_configure ::
  "env \<Rightarrow> string \<Rightarrow> string \<Rightarrow> string \<Rightarrow> string \<Rightarrow> string \<Rightarrow> step" where
  "host_configure e host cmd timestamp user pass w =
     (if \<not> ssh_connect e host user pass then (Inl SSHException, w)
      else
        let w1 = log_event [SshConnect host, SshExec host cmd] (w\<lparr>sessions := host # sessions w\<rparr>);
            (stdout, stderr) = ssh_exec e host cmd;
            close = (\<lambda>w. (Inr (), log_event [SshClose host] (w\<lparr>sessions := remove1 host (sessions w)\<rparr>)))
        in
          if truthy stdout \<or> truthy stderr then
            (case g_task w1 of
               None \<Rightarrow> (Inl NameError, w1)
             | Some t \<Rightarrow>
                 let directory_name = get_task_id t timestamp
                 in and_then (on_out_dir (ensure_dir directory_name))
                   (and_then
                     (if truthy stdout
                      then on_out_dir (in_subdir directory_name (write_text (host @ ''.log'') stdout))
                      else Pair (Inr ()))
                   (and_then
                     (if truthy stderr
                      then on_out_dir (in_subdir directory_name (write_text (host @ ''.err'') stdout))
                      else Pair (Inr ()))
                    close)) w1)
          else close w1)"

subsection \<open>Capture process controller: \<^verbatim>\<open>start_tshark\<close>\<close>

definition capture_file_name :: "task \<Rightarrow> string \<Rightarrow> string" where
  "capture_file_name t timestamp = get_task_id t timestamp @ ''.pcang''"

text \<open>
  \<^verbatim>\<open>str(directory / Path(name))\<close> for a directory given by the string of its path and a
  name of one component: the current directory \<^verbatim>\<open>.\<close> leaves the name alone, and a path that
  ends in a slash, as the root does, takes no second slash.
\<close>

definition path_join :: "string \<Rightarrow> string \<Rightarrow> string" where
  "path_join d n =
     (if d = ''.'' then n
      else if d \<noteq> [] \<and> last d = CHR ''/'' then d @ n
      else d @ ''/'' @ n)"

text \<open>The command line before it is split.\<close>

definition tshark_command :: "task \<Rightarrow> string \<Rightarrow> string \<Rightarrow> string \<Rightarrow> string" where
  "tshark_command t network_interface capture_directory timestamp =
     (let capture_file_path = path_join capture_directory (capture_file_name t timestamp);
          tshark_command = ''tshark -i '' @ network_interface @ '' -q -w '' @ capture_file_path
                             @ '' -F pcapng''
      in case filter_expr t of
           None \<Rightarrow> tshark_command
         | Some f \<Rightarrow> tshark_command @ '' -f '' @ [CHR 0x22] @ f @ [CHR 0x22])"

definition start_tshark :: "env \<Rightarrow> task \<Rightarrow> string \<Rightarrow> string \<Rightarrow> string \<Rightarrow> step" where
  "start_tshark e t network_interface capture_directory timestamp w =
     (case shlex_split (tshark_command t network_interface capture_directory timestamp) of
        Inl err \<Rightarrow> (Inl err, w)
      | Inr argv \<Rightarrow>
          (case popen_check e argv of
             Inl err \<Rightarrow> (Inl err, w)
           | Inr u \<Rightarrow>
               (Inr (), log_event [CaptureStart argv]
                          (w\<lparr>cap_dir := AList.updates (map fst (capture_writes e argv))
                                          (map snd (capture_writes e argv)) (cap_dir w)\<rparr>))))"

definition terminate :: step where
  "terminate w = (Inr (), log_event [CaptureTerminate] w)"

subsection \<open>Local command runner: \<^verbatim>\<open>run_command\<close>\<close>

definition run_command :: "env \<Rightarrow> task \<Rightarrow> string \<Rightarrow> step" where
  "run_command e t timestamp w =
     (case shlex_split (command t) of
        Inl err \<Rightarrow> (Inl err, w)
      | Inr argv \<Rightarrow>
          (case popen_check e argv of
             Inl err \<Rightarrow> (Inl err, w)
           | Inr u \<Rightarrow>
               let (returncode, stdout, stderr) = communicate e argv;
                   w1 = log_event [CommandStart argv, CommandExit returncode] w
               in and_then
                    (if truthy stdout
                     then on_out_dir (write_text (get_task_id t timestamp @ ''.log'') stdout)
                     else Pair (Inr ()))
                    (if truthy stderr
                     then on_out_dir (write_text (get_task_id t timestamp @ ''.err'') stderr)
                     else Pair (Inr ())) w1))"

subsection \<open>Artifact collector: \<^verbatim>\<open>move_files\<close>\<close>

text \<open>
  The loop over the listing of the capture directory, taken when the loop starts. Every
  entry but \<^verbatim>\<open>.\<close> and \<^verbatim>\<open>..\<close> is moved to the same name in the output directory.
\<close>

fun move_loop :: "string list \<Rightarrow> step" where
  "move_loop [] w = (Inr (), w)"
| "move_loop (n # ns) w =
     (if n = ''.'' \<or> n = ''..'' then move_loop ns w
      else
        (case map_of (cap_dir w) n of
           None \<Rightarrow> (Inl FileNotFoundError, w)
         | Some x \<Rightarrow>
             (case shutil_move n x (out_dir w) of
                Inl err \<Rightarrow> (Inl err, w)
              | Inr dst \<Rightarrow>
                  move_loop ns
                    (log_event [Move n] (w\<lparr>out_dir := dst, cap_dir := AList.delete n (cap_dir w)\<rparr>)))))"

definition move_files :: step where
  "move_files w = move_loop (map fst (cap_dir w)) w"

subsection \<open>Task orchestrator: \<^verbatim>\<open>process_creator_task\<close> and the loop of the main block\<close>

text \<open>
  \<^verbatim>\<open>time.sleep\<close> refuses a negative length, and a length that, in nanoseconds, does not
  fit a signed integer of 64 bits.
\<close>

definition sleep_max :: int where
  "sleep_max = 9223372036"

definition sleep :: "int \<Rightarrow> step" where
  "sleep d w =
     (if d < 0 then (Inl ValueError, w)
      else if sleep_max < d then (Inl OverflowError, w)
      else (Inr (), log_event [Sleep d] w))"

fun configure_loop :: "env \<Rightarrow> host_configuration list \<Rightarrow> string \<Rightarrow> args \<Rightarrow> step" where
  "configure_loop e [] timestamp a w = (Inr (), w)"
| "configure_loop e (hc # hcs) timestamp a w =
     and_then (host_configure e (ip hc) (hc_command hc) timestamp (username a) (password a))
              (configure_loop e hcs timestamp a) w"

definition process_creator_task :: "env \<Rightarrow> task \<Rightarrow> string \<Rightarrow> args \<Rightarrow> step" where
  "process_creator_task e t capture_directory a w =
     (let task_timestamp = strftime (localtime e (trace w))
      in and_then
           (case configuration t of
              None \<Rightarrow> Pair (Inr ())
            | Some hcs \<Rightarrow> configure_loop e hcs task_timestamp a)
         (and_then (start_tshark e t (interface a) capture_directory task_timestamp)
         (and_then (run_command e t task_timestamp)
         (and_then (sleep (delay a))
         (and_then terminate
          move_files)))) w)"

text \<open>
  \<^verbatim>\<open>for task in configuration: process_creator_task(task, capture_directory, args)\<close>:
  the loop variable is the module-global \<^verbatim>\<open>task\<close>.
\<close>

fun main_loop :: "env \<Rightarrow> task list \<Rightarrow> string \<Rightarrow> args \<Rightarrow> step" where
  "main_loop e [] capture_directory a w = (Inr (), w)"
| "main_loop e (t # ts) capture_directory a w =
     and_then (\<lambda>w. process_creator_task e t capture_directory a (w\<lparr>g_task := Some t\<rparr>))
              (main_loop e ts capture_directory a) w"

subsection \<open>Conditions on inputs\<close>

text \<open>
  A listing as the operating system yields it: no name twice, and neither \<^verbatim>\<open>.\<close> nor
  \<^verbatim>\<open>..\<close> among the names.
\<close>

definition listing_ok :: "dir \<Rightarrow> bool" where
  "listing_ok d =
     (distinct (map fst d) \<and> ''.'' \<notin> set (map fst d) \<and> ''..'' \<notin> set (map fst d))"

text \<open>
  The entry \<open>x\<close> named \<open>n\<close> can take the place \<open>n\<close> in the directory \<open>dst\<close>: the place is
  free, or a file is to replace a file.
\<close>

definition replaceable :: "dir \<Rightarrow> string \<Rightarrow> node \<Rightarrow> bool" where
  "replaceable dst n x =
     (case map_of dst n of
        None \<Rightarrow> True
      | Some (File c) \<Rightarrow> (case x of File c' \<Rightarrow> True | Dir sub \<Rightarrow> False)
      | Some (Dir sub) \<Rightarrow> False)"

definition collectable :: "dir \<Rightarrow> dir \<Rightarrow> bool" where
  "collectable src dst = list_all (\<lambda>(n, x). replaceable dst n x) src"








text \<open>
  The extension of the first file a step opens for the captured streams \<open>out\<close> and \<open>err\<close>,
  one of which is not empty: the log file when there is standard output, else the error
  file. The content of the entry \<open>n\<close> of \<open>d\<close> when it is a directory.
\<close>

definition first_opened :: "bytes \<Rightarrow> string" where
  "first_opened out = (if out = [] then ''.err'' else ''.log'')"

definition subdir_content :: "dir \<Rightarrow> string \<Rightarrow> dir" where
  "subdir_content d n = (case map_of d n of Some (Dir sub) \<Rightarrow> sub | _ \<Rightarrow> [])"

definition not_a_dir :: "dir \<Rightarrow> string \<Rightarrow> bool" where
  "not_a_dir d n = (case map_of d n of Some (Dir sub) \<Rightarrow> False | _ \<Rightarrow> True)"

definition not_a_file :: "dir \<Rightarrow> string \<Rightarrow> bool" where
  "not_a_file d n = (case map_of d n of Some (File c) \<Rightarrow> False | _ \<Rightarrow> True)"

subsection \<open>The order of the calls of one task\<close>



subsection \<open>A laboratory run\<close>

text \<open>
  The inputs of the end-to-end scenarios: the task \<open>Ping Test\<close>, the defaults of the
  command line, one remote host, and collaborators that always connect and launch. The
  capture tool of the laboratory leaves one file, named by the last component of the
  argument in the place of the output file.
\<close>

definition ping_task :: task where
  "ping_task = \<lparr>name = ''Ping Test'', command = ''ping -c1 localhost'',
                 filter_expr = None, configuration = None\<rparr>"

definition lab_args :: args where
  "lab_args = \<lparr>interface = ''enp0s8'', delay = 3, username = ''vagrant'', password = ''vagrant''\<rparr>"

definition lab_time :: struct_time where
  "lab_time = \<lparr>tm_year = 2018, tm_mon = 1, tm_mday = 1, tm_hour = 10, tm_min = 0, tm_sec = 0\<rparr>"

definition basename :: "string \<Rightarrow> string" where
  "basename p = rev (takeWhile (\<lambda>c. c \<noteq> CHR ''/'') (rev p))"

definition lab_env :: "pyobj \<times> pyobj \<Rightarrow> int \<times> pyobj \<times> pyobj \<Rightarrow> env" where
  "lab_env remote local =
     \<lparr>localtime = (\<lambda>es. lab_time),
      ssh_connect = (\<lambda>host user pass. True),
      ssh_exec = (\<lambda>host cmd. remote),
      popen = (\<lambda>argv. True),
      communicate = (\<lambda>argv. local),
      capture_writes = (\<lambda>argv. if 5 < length argv then [(basename (argv ! 5), File ''packets'')] else [])\<rparr>"

definition silent :: "pyobj \<times> pyobj" where
  "silent = (Bytes [], Bytes [])"

definition empty_world :: world where
  "empty_world = \<lparr>out_dir = [], cap_dir = [], g_task = None, sessions = [], trace = []\<rparr>"

text \<open>A capture directory with a file and a directory, beside an output directory in use.\<close>

definition collect_world :: world where
  "collect_world =
     empty_world\<lparr>cap_dir := [(''a.pcang'', File ''new''), (''d'', Dir [(''f'', File ''y'')])],
                 out_dir := [(''a.pcang'', File ''old''), (''keep'', File ''k'')]\<rparr>"

text \<open>The task of the third end-to-end scenario: a capture filter is given.\<close>

definition filter_task :: task where
  "filter_task = ping_task\<lparr>filter_expr := Some ''tcp port 80''\<rparr>"


subsection \<open>Properties of the identity namer\<close>

lemma re_sub_unsafe_append: "re_sub_unsafe (a @ b) = re_sub_unsafe a @ re_sub_unsafe b"
  by (simp add: re_sub_unsafe_def)

lemma re_sub_unsafe_clean: "\<forall>c \<in> set s. \<not> unsafe c \<Longrightarrow> re_sub_unsafe s = s"
  by (induction s) (simp_all add: re_sub_unsafe_def)

lemma underscore_safe: "\<not> unsafe (CHR ''_'')"
  by (simp add: unsafe_def unsafe_chars_def)

lemma re_sub_unsafe_safe: "c \<in> set (re_sub_unsafe s) \<Longrightarrow> \<not> unsafe c"
  using underscore_safe by (auto simp: re_sub_unsafe_def)

lemma digit_char_cases: "digit_char d \<in> set ''0123456789''"
  unfolding digit_char_def by (rule nth_mem) simp

lemma digit_char_safe: "\<not> unsafe (digit_char d)"
  using digit_char_cases [of d] by (auto simp: unsafe_def unsafe_chars_def)

lemma decimal_safe: "c \<in> set (decimal n) \<Longrightarrow> \<not> unsafe c"
proof (induction n rule: decimal.induct)
  case (1 n)
  show ?case
  proof (cases "n < 10")
    case True
    with "1.prems" show ?thesis by (simp add: decimal.simps [of n] digit_char_safe)
  next
    case False
    with "1.prems" "1.IH" show ?thesis by (auto simp: decimal.simps [of n] digit_char_safe)
  qed
qed

lemma zero_dash_safe: "\<not> unsafe (CHR ''0'')" "\<not> unsafe (CHR ''-'')"
  by (simp_all add: unsafe_def unsafe_chars_def)

lemma pad2_safe: "c \<in> set (pad2 n) \<Longrightarrow> \<not> unsafe c"
  using decimal_safe [of c n] zero_dash_safe(1)
  by (cases "n < 10") (auto simp: pad2_def)

lemma strftime_safe: "\<forall>c \<in> set (strftime tm). \<not> unsafe c"
proof
  fix c assume "c \<in> set (strftime tm)"
  then consider "c \<in> set (decimal (tm_year tm))" | "c \<in> set (pad2 (tm_mon tm))"
    | "c \<in> set (pad2 (tm_mday tm))" | "c \<in> set (pad2 (tm_hour tm))"
    | "c \<in> set (pad2 (tm_min tm))" | "c \<in> set (pad2 (tm_sec tm))"
    | "c = CHR ''-''" | "c = CHR ''_''"
    unfolding strftime_def by auto
  then show "\<not> unsafe c"
    by cases (simp_all add: decimal_safe pad2_safe zero_dash_safe underscore_safe)
qed

text \<open>
  Claim C2. The timestamp of a task is made by \<open>strftime\<close> from the local time. For
  every task name and every such timestamp the identity is the timestamp, a dash and the
  sanitised name: the name cut to its first 50 characters, then lower-cased, then with
  every character of the unsafe set replaced by an underscore. The substitution leaves the
  timestamp as it is, since a timestamp holds digits, dashes and an underscore only; the
  same holds of any timestamp without an unsafe character. The identity holds no character
  of the unsafe set, whatever the timestamp. It is a function of the name and the
  timestamp: two tasks of the same name have the same identity at the same timestamp.
\<close>

theorem get_task_id_identity:
  "get_task_id t (strftime tm) =
     strftime tm @ ''-'' @ re_sub_unsafe (str_lower (take 50 (name t)))
   \<and> ((\<forall>c \<in> set ts. \<not> unsafe c) \<longrightarrow>
        get_task_id t ts = ts @ ''-'' @ re_sub_unsafe (str_lower (take 50 (name t))))
   \<and> (\<forall>c \<in> set (re_sub_unsafe (str_lower (take 50 (name t)))). \<not> unsafe c)
   \<and> (\<forall>c \<in> set (get_task_id t ts). \<not> unsafe c)
   \<and> (name t = name t' \<longrightarrow> get_task_id t ts = get_task_id t' ts)"
proof -
  have dash: "re_sub_unsafe ''-'' = ''-''"
    by (simp add: re_sub_unsafe_clean zero_dash_safe)
  have split: "get_task_id t ts =
      re_sub_unsafe ts @ ''-'' @ re_sub_unsafe (str_lower (take 50 (name t)))" for ts
    unfolding get_task_id_def Let_def re_sub_unsafe_append dash ..
  have safe: "\<forall>c \<in> set (get_task_id t ts). \<not> unsafe c"
    unfolding get_task_id_def Let_def using re_sub_unsafe_safe by blast
  have name_safe: "\<forall>c \<in> set (re_sub_unsafe (str_lower (take 50 (name t)))). \<not> unsafe c"
    using re_sub_unsafe_safe by blast
  have clean: "(\<forall>c \<in> set ts. \<not> unsafe c) \<longrightarrow>
      get_task_id t ts = ts @ ''-'' @ re_sub_unsafe (str_lower (take 50 (name t)))" for ts
    by (simp add: split re_sub_unsafe_clean)
  have det: "name t = name t' \<longrightarrow> get_task_id t ts = get_task_id t' ts"
    by (simp add: get_task_id_def)
  from clean [of ts] clean [of "strftime tm"] strftime_safe [of tm] safe name_safe det
  show ?thesis by blast
qed

text \<open>The claim at the task name of the first end-to-end scenario.\<close>

theorem get_task_id_identity_witness:
  "strftime lab_time = ''2018-01-01_10-00-00''
   \<and> get_task_id ping_task (strftime lab_time) = ''2018-01-01_10-00-00-ping_test''
   \<and> get_task_id filter_task (strftime lab_time) = ''2018-01-01_10-00-00-ping_test''"
proof -
  have n: "name ping_task = name filter_task"
    by code_simp
  have s: "strftime lab_time = ''2018-01-01_10-00-00''"
    by code_simp
  have l: "strftime lab_time @ ''-'' @ re_sub_unsafe (str_lower (take 50 (name ping_task)))
      = ''2018-01-01_10-00-00-ping_test''"
    by code_simp
  note t = get_task_id_identity [of ping_task lab_time "strftime lab_time" filter_task]
  from t [THEN conjunct1] l
  have a: "get_task_id ping_task (strftime lab_time) = ''2018-01-01_10-00-00-ping_test''"
    by (rule trans)
  from t [THEN conjunct2, THEN conjunct2, THEN conjunct2, THEN conjunct2, THEN mp, OF n]
  have "get_task_id ping_task (strftime lab_time) = get_task_id filter_task (strftime lab_time)" .
  with a have "get_task_id filter_task (strftime lab_time) = ''2018-01-01_10-00-00-ping_test''"
    by simp
  with s a show ?thesis by simp
qed

subsection \<open>Properties of the remote host configurator\<close>

lemma path_exists_update: "path_exists (AList.update k v d) n = (n = k \<or> path_exists d n)"
  by (auto simp: path_exists_def update_conv')

lemma path_exists_append: "path_exists (d @ [(k, v)]) n = (n = k \<or> path_exists d n)"
  by (auto simp: path_exists_def)

lemma in_subdir_keeps: "path_exists d m \<Longrightarrow> path_exists (snd (in_subdir n f d)) m"
  by (auto simp: in_subdir_def path_exists_update split: option.splits node.splits prod.splits)

lemma ensure_dir_exists: "path_exists (snd (ensure_dir n d)) n"
  by (simp add: ensure_dir_def mkdir_def path_exists_append)

lemma ensure_dir_ok: "fst (ensure_dir n d) = Inr ()"
  by (simp add: ensure_dir_def mkdir_def)

lemma on_out_dir_snd: "snd (on_out_dir f v) = v\<lparr>out_dir := snd (f (out_dir v))\<rparr>"
  by (simp add: on_out_dir_def split: prod.splits)

lemma on_out_dir_fst: "fst (on_out_dir f v) = fst (f (out_dir v))"
  by (simp add: on_out_dir_def split: prod.splits)

lemma and_then_keeps:
  assumes "\<And>v. P v \<Longrightarrow> P (snd (m v))" and "\<And>v. P v \<Longrightarrow> P (snd (k v))" and "P w"
  shows "P (snd (and_then m k w))"
proof (cases "m w")
  case (Pair r w')
  with assms(1) [OF assms(3)] have "P w'" by simp
  with Pair assms(2) show ?thesis
    by (cases r) (simp_all add: and_then_def)
qed

lemma host_configure_quiet:
  assumes "ssh_connect e host user pass" and "ssh_exec e host cmd = (out, err)"
    and "\<not> truthy out" and "\<not> truthy err"
  shows "host_configure e host cmd ts user pass w =
           (Inr (), w\<lparr>trace := trace w @ [SshConnect host, SshExec host cmd, SshClose host]\<rparr>)"
  using assms by (simp add: host_configure_def log_event_def)

lemma host_configure_unbound:
  assumes "ssh_connect e host user pass" and "ssh_exec e host cmd = (out, err)"
    and "truthy out \<or> truthy err" and "g_task w = None"
  shows "host_configure e host cmd ts user pass w =
           (Inl NameError, w\<lparr>sessions := host # sessions w,
                              trace := trace w @ [SshConnect host, SshExec host cmd]\<rparr>)"
  using assms by (simp add: host_configure_def log_event_def)

lemma ensure_dir_result:
  assumes "not_a_file d n"
  shows "\<exists>d1. ensure_dir n d = (Inr (), d1)
           \<and> map_of d1 n = Some (Dir (subdir_content d n))
           \<and> (\<forall>m. m \<noteq> n \<longrightarrow> map_of d1 m = map_of d m)"
  using assms
  by (auto simp: ensure_dir_def mkdir_def path_exists_def subdir_content_def not_a_file_def
           map_add_def split: option.splits node.splits)

lemma write_text_entry:
  assumes "not_a_dir sub f"
  shows "\<exists>c. map_of (snd (write_text f v sub)) f = Some (File c)"
  using assms
  by (cases v)
     (auto simp: write_text_def open_w_def not_a_dir_def update_conv'
           split: option.splits node.splits)

lemma write_text_other:
  "g \<noteq> f \<Longrightarrow> map_of (snd (write_text g v sub)) f = map_of sub f"
  by (cases v)
     (auto simp: write_text_def open_w_def update_conv' split: option.splits node.splits)

lemma in_subdir_dir:
  assumes "map_of d n = Some (Dir sub)"
  shows "map_of (snd (in_subdir n g d)) n = Some (Dir (snd (g sub)))"
    and "m \<noteq> n \<Longrightarrow> map_of (snd (in_subdir n g d)) m = map_of d m"
  using assms by (auto simp: in_subdir_def update_conv' split: prod.splits)

lemma host_configure_bound_files:
  assumes "ssh_connect e host user pass" and "ssh_exec e host cmd = (out, err)"
    and "truthy out \<or> truthy err" and "g_task w = Some t"
    and "not_a_file (out_dir w) (get_task_id t ts)"
  shows "\<exists>sub. map_of (out_dir (snd (host_configure e host cmd ts user pass w))) (get_task_id t ts)
                 = Some (Dir sub)
           \<and> (not_a_dir (subdir_content (out_dir w) (get_task_id t ts))
                 (host @ first_opened (payload out))
               \<longrightarrow> (\<exists>c. map_of sub (host @ first_opened (payload out)) = Some (File c)))"
    and "\<forall>n. n \<noteq> get_task_id t ts \<longrightarrow>
           map_of (out_dir (snd (host_configure e host cmd ts user pass w))) n = map_of (out_dir w) n"
proof -
  let ?id = "get_task_id t ts"
  let ?f = "host @ first_opened (payload out)"
  let ?sub0 = "subdir_content (out_dir w) ?id"
  let ?w1 = "log_event [SshConnect host, SshExec host cmd] (w\<lparr>sessions := host # sessions w\<rparr>)"
  let ?close = "\<lambda>w. (Inr (), log_event [SshClose host] (w\<lparr>sessions := remove1 host (sessions w)\<rparr>))"
  let ?S1 = "if truthy out
        then on_out_dir (in_subdir ?id (write_text (host @ ''.log'') out))
        else Pair (Inr ())"
  let ?S2 = "if truthy err
          then on_out_dir (in_subdir ?id (write_text (host @ ''.err'') out))
          else Pair (Inr ())"
  let ?rest = "and_then ?S1 (and_then ?S2 ?close)"
  let ?P = "\<lambda>v. (\<exists>sub. map_of (out_dir v) ?id = Some (Dir sub))
                 \<and> (\<forall>n. n \<noteq> ?id \<longrightarrow> map_of (out_dir v) n = map_of (out_dir w) n)"
  let ?Q = "\<lambda>v. \<exists>sub c. map_of (out_dir v) ?id = Some (Dir sub) \<and> map_of sub ?f = Some (File c)"
  let ?R = "\<lambda>v. map_of (out_dir v) ?id = Some (Dir ?sub0)
                 \<and> (\<forall>n. n \<noteq> ?id \<longrightarrow> map_of (out_dir v) n = map_of (out_dir w) n)"
  have eq: "host_configure e host cmd ts user pass w =
      and_then (on_out_dir (ensure_dir ?id)) ?rest ?w1"
    using assms by (simp add: host_configure_def Let_def log_event_def)
  obtain d1 where ens: "ensure_dir ?id (out_dir w) = (Inr (), d1)"
    and d1: "map_of d1 ?id = Some (Dir ?sub0)"
    and d1o: "\<forall>m. m \<noteq> ?id \<longrightarrow> map_of d1 m = map_of (out_dir w) m"
    using ensure_dir_result [OF assms(5)] by blast
  let ?w2 = "?w1\<lparr>out_dir := d1\<rparr>"
  have run: "host_configure e host cmd ts user pass w = ?rest ?w2"
    using eq ens by (simp add: and_then_def on_out_dir_def log_event_def)
  have R2: "?R ?w2" using d1 d1o by simp
  have P2: "?P ?w2" using d1 d1o by simp
  have keepP: "?P v \<Longrightarrow> ?P (snd (on_out_dir (in_subdir ?id g) v))" for v g
    by (auto simp: on_out_dir_snd in_subdir_dir)
  have keepQ: "?Q v \<Longrightarrow> g \<noteq> ?f \<Longrightarrow> ?Q (snd (on_out_dir (in_subdir ?id (write_text g x)) v))"
    for v g x
    by (auto simp: on_out_dir_snd in_subdir_dir write_text_other)
  have makeQ: "?R v \<Longrightarrow> not_a_dir ?sub0 ?f
      \<Longrightarrow> ?Q (snd (on_out_dir (in_subdir ?id (write_text ?f x)) v))" for v x
    using write_text_entry [of ?sub0 ?f x]
    by (auto simp: on_out_dir_snd in_subdir_dir)
  have closeP: "?P v \<Longrightarrow> ?P (snd (?close v))" for v
    by (simp add: log_event_def)
  have closeQ: "?Q v \<Longrightarrow> ?Q (snd (?close v))" for v
    by (simp add: log_event_def)
  have innerP: "?P v \<Longrightarrow> ?P (snd (and_then ?S2 ?close v))" for v
    by (rule and_then_keeps [where P = ?P]) (simp_all add: keepP log_event_def)
  have restP: "?P (snd (?rest ?w2))"
    by (rule and_then_keeps [where P = ?P, OF _ innerP P2]) (simp_all add: keepP)
  have restQ: "?Q (snd (?rest ?w2))" if nd: "not_a_dir ?sub0 ?f"
  proof (cases "truthy out")
    case True
    then have f: "?f = host @ ''.log''" by (cases out) (simp_all add: truthy_def first_opened_def)
    let ?v = "snd (on_out_dir (in_subdir ?id (write_text (host @ ''.log'') out)) ?w2)"
    have Qv: "?Q ?v" using makeQ [OF R2 nd, of out] f by simp
    have ne: "host @ ''.err'' \<noteq> ?f" using f by simp
    have s2Q: "?Q u \<Longrightarrow> ?Q (snd (?S2 u))" for u
      using keepQ [OF _ ne, of u out] by (cases "truthy err") simp_all
    have innerQ: "?Q (snd (and_then ?S2 ?close ?v))"
      by (rule and_then_keeps [where P = ?Q, OF s2Q closeQ Qv])
    show ?thesis
    proof (cases "on_out_dir (in_subdir ?id (write_text (host @ ''.log'') out)) ?w2")
      case (Pair r v)
      then show ?thesis using True Qv innerQ by (cases r) (simp_all add: and_then_def)
    qed
  next
    case False
    then have te: "truthy err" using assms(3) by simp
    from False have f: "?f = host @ ''.err''" by (cases out) (simp_all add: truthy_def first_opened_def)
    let ?v = "snd (on_out_dir (in_subdir ?id (write_text (host @ ''.err'') out)) ?w2)"
    have Qv: "?Q ?v" using makeQ [OF R2 nd, of out] f by simp
    show ?thesis
    proof (cases "on_out_dir (in_subdir ?id (write_text (host @ ''.err'') out)) ?w2")
      case (Pair r v)
      then show ?thesis using False te Qv closeQ [of v] by (cases r) (simp_all add: and_then_def log_event_def)
    qed
  qed
  from restP obtain sub where sub: "map_of (out_dir (snd (?rest ?w2))) ?id = Some (Dir sub)"
    by blast
  have "not_a_dir ?sub0 ?f \<longrightarrow> (\<exists>c. map_of sub ?f = Some (File c))"
    using restQ sub by auto
  with sub show "\<exists>sub. map_of (out_dir (snd (host_configure e host cmd ts user pass w))) ?id
                 = Some (Dir sub)
           \<and> (not_a_dir ?sub0 ?f \<longrightarrow> (\<exists>c. map_of sub ?f = Some (File c)))"
    unfolding run by blast
  show "\<forall>n. n \<noteq> ?id \<longrightarrow>
           map_of (out_dir (snd (host_configure e host cmd ts user pass w))) n = map_of (out_dir w) n"
    unfolding run using restP by blast
qed

lemma host_configure_not_a_directory:
  assumes "ssh_connect e host user pass" and "ssh_exec e host cmd = (out, err)"
    and "truthy out \<or> truthy err" and "g_task w = Some t"
    and "map_of (out_dir w) (get_task_id t ts) = Some (File c)"
  shows "host_configure e host cmd ts user pass w =
           (Inl NotADirectoryError, w\<lparr>sessions := host # sessions w,
                              trace := trace w @ [SshConnect host, SshExec host cmd]\<rparr>)"
  using assms
  by (auto simp: host_configure_def Let_def log_event_def and_then_def on_out_dir_def
        ensure_dir_def path_exists_def in_subdir_def)

text \<open>
  Claim C4. When both streams of the remote command are empty, the configure step creates
  no directory and no file: the output directory and the capture directory are as before.
  The session opened for the step is closed again, after the streams were read: the calls
  made are connect, execute, close, in this order, and the open sessions are those from
  before the step. The step raises nothing.
\<close>

theorem host_configure_empty_output:
  assumes "ssh_connect e host user pass" and "ssh_exec e host cmd = (out, err)"
    and "\<not> truthy out" and "\<not> truthy err"
  shows "host_configure e host cmd ts user pass w =
           (Inr (), w\<lparr>trace := trace w @ [SshConnect host, SshExec host cmd, SshClose host]\<rparr>)
         \<and> out_dir (snd (host_configure e host cmd ts user pass w)) = out_dir w
         \<and> cap_dir (snd (host_configure e host cmd ts user pass w)) = cap_dir w
         \<and> sessions (snd (host_configure e host cmd ts user pass w)) = sessions w"
  using host_configure_quiet [OF assms] by simp

theorem host_configure_empty_output_witness:
  "host_configure (lab_env silent (0, silent)) ''10.0.0.1'' ''ls'' ''2018-01-01_10-00-00''
     ''vagrant'' ''vagrant'' (empty_world\<lparr>g_task := Some ping_task\<rparr>)
   = (Inr (), \<lparr>out_dir = [], cap_dir = [], g_task = Some ping_task, sessions = [],
        trace = [SshConnect ''10.0.0.1'', SshExec ''10.0.0.1'' ''ls'', SshClose ''10.0.0.1'']\<rparr>)"
  using host_configure_empty_output [of "lab_env silent (0, silent)" "''10.0.0.1''" "''vagrant''"
      "''vagrant''" "''ls''" "Bytes []" "Bytes []" "''2018-01-01_10-00-00''"
      "empty_world\<lparr>g_task := Some ping_task\<rparr>"]
  by (simp add: lab_env_def silent_def truthy_def empty_world_def)

text \<open>
  Claim C9 (as amended). The configurator has no task among its parameters: the name of
  the per-host directory comes from the module-global \<open>task\<close>. When the remote command
  yields output and the global is unbound, the step fails with \<open>NameError\<close> before any
  directory or file is made, and the session stays open. When the global is bound and the
  path named by the identity of that task is not taken by a file, that path is a directory
  after the step, the file the step opens first is a file in it (unless a directory sits
  at its path), and every other entry of the output directory is as before; when the path
  is taken by a file, the step fails with \<open>NotADirectoryError\<close> and nothing is made. When
  the remote command yields no output, the global is never looked up and the step succeeds
  whether it is bound or not.
\<close>

theorem host_configure_global_task:
  assumes "ssh_connect e host user pass" and "ssh_exec e host cmd = (out, err)"
  shows "((truthy out \<or> truthy err) \<and> g_task w = None \<longrightarrow>
            host_configure e host cmd ts user pass w =
              (Inl NameError, w\<lparr>sessions := host # sessions w,
                                 trace := trace w @ [SshConnect host, SshExec host cmd]\<rparr>))
         \<and> ((truthy out \<or> truthy err) \<and> g_task w = Some t
              \<and> not_a_file (out_dir w) (get_task_id t ts) \<longrightarrow>
            (\<exists>sub. map_of (out_dir (snd (host_configure e host cmd ts user pass w)))
                      (get_task_id t ts) = Some (Dir sub)
                 \<and> (not_a_dir (subdir_content (out_dir w) (get_task_id t ts))
                       (host @ first_opened (payload out))
                     \<longrightarrow> (\<exists>c. map_of sub (host @ first_opened (payload out)) = Some (File c))))
            \<and> (\<forall>n. n \<noteq> get_task_id t ts \<longrightarrow>
                  map_of (out_dir (snd (host_configure e host cmd ts user pass w))) n
                  = map_of (out_dir w) n))
         \<and> ((truthy out \<or> truthy err) \<and> g_task w = Some t
              \<and> \<not> not_a_file (out_dir w) (get_task_id t ts) \<longrightarrow>
            host_configure e host cmd ts user pass w =
              (Inl NotADirectoryError, w\<lparr>sessions := host # sessions w,
                                 trace := trace w @ [SshConnect host, SshExec host cmd]\<rparr>))
         \<and> (\<not> truthy out \<and> \<not> truthy err \<longrightarrow>
            host_configure e host cmd ts user pass w =
              (Inr (), w\<lparr>trace := trace w @ [SshConnect host, SshExec host cmd, SshClose host]\<rparr>))"
proof (intro conjI impI)
  assume "(truthy out \<or> truthy err) \<and> g_task w = None"
  then show "host_configure e host cmd ts user pass w =
      (Inl NameError, w\<lparr>sessions := host # sessions w,
                         trace := trace w @ [SshConnect host, SshExec host cmd]\<rparr>)"
    using host_configure_unbound [OF assms] by simp
next
  assume h: "(truthy out \<or> truthy err) \<and> g_task w = Some t
      \<and> not_a_file (out_dir w) (get_task_id t ts)"
  then have tr: "truthy out \<or> truthy err" and g: "g_task w = Some t"
    and nf: "not_a_file (out_dir w) (get_task_id t ts)" by simp_all
  show "\<exists>sub. map_of (out_dir (snd (host_configure e host cmd ts user pass w)))
                 (get_task_id t ts) = Some (Dir sub)
            \<and> (not_a_dir (subdir_content (out_dir w) (get_task_id t ts))
                  (host @ first_opened (payload out))
                \<longrightarrow> (\<exists>c. map_of sub (host @ first_opened (payload out)) = Some (File c)))"
    by (rule host_configure_bound_files(1) [OF assms tr g nf])
  show "\<forall>n. n \<noteq> get_task_id t ts \<longrightarrow>
          map_of (out_dir (snd (host_configure e host cmd ts user pass w))) n
          = map_of (out_dir w) n"
    by (rule host_configure_bound_files(2) [OF assms tr g nf])
next
  assume h: "(truthy out \<or> truthy err) \<and> g_task w = Some t
      \<and> \<not> not_a_file (out_dir w) (get_task_id t ts)"
  then have tr: "truthy out \<or> truthy err" and g: "g_task w = Some t" by simp_all
  from h obtain c where "map_of (out_dir w) (get_task_id t ts) = Some (File c)"
    by (auto simp: not_a_file_def split: option.splits node.splits)
  then show "host_configure e host cmd ts user pass w =
      (Inl NotADirectoryError, w\<lparr>sessions := host # sessions w,
                         trace := trace w @ [SshConnect host, SshExec host cmd]\<rparr>)"
    by (rule host_configure_not_a_directory [OF assms tr g])
next
  assume "\<not> truthy out \<and> \<not> truthy err"
  then show "host_configure e host cmd ts user pass w =
      (Inr (), w\<lparr>trace := trace w @ [SshConnect host, SshExec host cmd, SshClose host]\<rparr>)"
    using host_configure_quiet [OF assms] by simp
qed

theorem host_configure_global_task_witness:
  "host_configure (lab_env (Bytes ''out'', Bytes []) (0, silent)) ''10.0.0.1'' ''ls''
     ''2018-01-01_10-00-00'' ''vagrant'' ''vagrant'' empty_world
   = (Inl NameError, \<lparr>out_dir = [], cap_dir = [], g_task = None, sessions = [''10.0.0.1''],
        trace = [SshConnect ''10.0.0.1'', SshExec ''10.0.0.1'' ''ls'']\<rparr>)
   \<and> out_dir (snd (host_configure (lab_env (Bytes ''out'', Bytes []) (0, silent)) ''10.0.0.1''
        ''ls'' ''2018-01-01_10-00-00'' ''vagrant'' ''vagrant''
        (empty_world\<lparr>g_task := Some ping_task\<rparr>)))
     = [(''2018-01-01_10-00-00-ping_test'', Dir [(''10.0.0.1.log'', File [])])]
   \<and> host_configure (lab_env (Bytes ''out'', Bytes []) (0, silent)) ''10.0.0.1'' ''ls''
       ''2018-01-01_10-00-00'' ''vagrant'' ''vagrant''
       (empty_world\<lparr>g_task := Some ping_task,
                     out_dir := [(''2018-01-01_10-00-00-ping_test'', File ''x'')]\<rparr>)
     = (Inl NotADirectoryError,
        \<lparr>out_dir = [(''2018-01-01_10-00-00-ping_test'', File ''x'')], cap_dir = [],
         g_task = Some ping_task, sessions = [''10.0.0.1''],
         trace = [SshConnect ''10.0.0.1'', SshExec ''10.0.0.1'' ''ls'']\<rparr>)"
proof -
  let ?e = "lab_env (Bytes ''out'', Bytes []) (0, silent)"
  let ?ts = "''2018-01-01_10-00-00''"
  let ?id = "''2018-01-01_10-00-00-ping_test''"
  let ?w2 = "empty_world\<lparr>g_task := Some ping_task\<rparr>"
  let ?w3 = "empty_world\<lparr>g_task := Some ping_task, out_dir := [(?id, File ''x'')]\<rparr>"
  have c: "ssh_connect ?e ''10.0.0.1'' ''vagrant'' ''vagrant''"
    by code_simp
  have x: "ssh_exec ?e ''10.0.0.1'' ''ls'' = (Bytes ''out'', Bytes [])"
    by code_simp
  note T = host_configure_global_task [OF c x]
  have h1: "(truthy (Bytes ''out'') \<or> truthy (Bytes [])) \<and> g_task empty_world = None"
    by code_simp
  have h2: "(truthy (Bytes ''out'') \<or> truthy (Bytes [])) \<and> g_task ?w2 = Some ping_task
      \<and> not_a_file (out_dir ?w2) (get_task_id ping_task ?ts)"
    by code_simp
  have h3: "(truthy (Bytes ''out'') \<or> truthy (Bytes [])) \<and> g_task ?w3 = Some ping_task
      \<and> \<not> not_a_file (out_dir ?w3) (get_task_id ping_task ?ts)"
    by code_simp
  have a: "host_configure ?e ''10.0.0.1'' ''ls'' ?ts ''vagrant'' ''vagrant'' empty_world =
      (Inl NameError, empty_world\<lparr>sessions := ''10.0.0.1'' # sessions empty_world,
         trace := trace empty_world @ [SshConnect ''10.0.0.1'', SshExec ''10.0.0.1'' ''ls'']\<rparr>)"
    by (rule T [THEN conjunct1, THEN mp, OF h1])
  have b: "\<exists>sub. map_of (out_dir (snd (host_configure ?e ''10.0.0.1'' ''ls'' ?ts ''vagrant''
                      ''vagrant'' ?w2))) (get_task_id ping_task ?ts) = Some (Dir sub)
            \<and> (not_a_dir (subdir_content (out_dir ?w2) (get_task_id ping_task ?ts))
                  (''10.0.0.1'' @ first_opened (payload (Bytes ''out'')))
                \<longrightarrow> (\<exists>c. map_of sub (''10.0.0.1'' @ first_opened (payload (Bytes ''out'')))
                           = Some (File c)))"
    by (rule T [THEN conjunct2, THEN conjunct1, THEN mp, OF h2, THEN conjunct1])
  have d: "host_configure ?e ''10.0.0.1'' ''ls'' ?ts ''vagrant'' ''vagrant'' ?w3 =
      (Inl NotADirectoryError, ?w3\<lparr>sessions := ''10.0.0.1'' # sessions ?w3,
         trace := trace ?w3 @ [SshConnect ''10.0.0.1'', SshExec ''10.0.0.1'' ''ls'']\<rparr>)"
    by (rule T [THEN conjunct2, THEN conjunct2, THEN conjunct1, THEN mp, OF h3])
  have a': "(Inl NameError :: error + unit,
       empty_world\<lparr>sessions := ''10.0.0.1'' # sessions empty_world,
         trace := trace empty_world @ [SshConnect ''10.0.0.1'', SshExec ''10.0.0.1'' ''ls'']\<rparr>)
     = (Inl NameError, \<lparr>out_dir = [], cap_dir = [], g_task = None, sessions = [''10.0.0.1''],
          trace = [SshConnect ''10.0.0.1'', SshExec ''10.0.0.1'' ''ls'']\<rparr>)"
    by code_simp
  have b': "out_dir (snd (host_configure ?e ''10.0.0.1'' ''ls'' ?ts ''vagrant'' ''vagrant'' ?w2))
     = [(?id, Dir [(''10.0.0.1.log'', File [])])]"
    by code_simp
  have d': "(Inl NotADirectoryError :: error + unit,
       ?w3\<lparr>sessions := ''10.0.0.1'' # sessions ?w3,
         trace := trace ?w3 @ [SshConnect ''10.0.0.1'', SshExec ''10.0.0.1'' ''ls'']\<rparr>)
     = (Inl NotADirectoryError,
        \<lparr>out_dir = [(?id, File ''x'')], cap_dir = [],
         g_task = Some ping_task, sessions = [''10.0.0.1''],
         trace = [SshConnect ''10.0.0.1'', SshExec ''10.0.0.1'' ''ls'']\<rparr>)"
    by code_simp
  from a a' b' d d' show ?thesis by simp
qed

text \<open>
  Claim C9 as stated fails for an invocation with no global \<open>task\<close> bound whose remote
  command prints nothing: it returns normally, with no name-resolution error.
\<close>

theorem host_configure_global_task_counterexample:
  "g_task empty_world = None
   \<and> host_configure (lab_env silent (0, silent)) ''10.0.0.1'' ''ls'' ''2018-01-01_10-00-00''
       ''vagrant'' ''vagrant'' empty_world
     = (Inr (), \<lparr>out_dir = [], cap_dir = [], g_task = None, sessions = [],
          trace = [SshConnect ''10.0.0.1'', SshExec ''10.0.0.1'' ''ls'', SshClose ''10.0.0.1'']\<rparr>)"
  by code_simp

text \<open>
  Claim C1 does not hold of the code. With a remote command that prints to its error
  stream only, the error file \<open>10.0.0.1.err\<close> is opened and then \<open>write\<close> is called with
  the captured standard output, a byte string: the call raises \<open>TypeError\<close>, the file is
  left empty and the session open. With a transport that hands back text, the write
  succeeds and the error file holds the text of the standard output, not of the error
  stream.
\<close>

theorem host_configure_err_file:
  "host_configure (lab_env (Bytes [], Bytes ''boom'') (0, silent)) ''10.0.0.1'' ''ls''
     ''2018-01-01_10-00-00'' ''vagrant'' ''vagrant'' (empty_world\<lparr>g_task := Some ping_task\<rparr>)
   = (Inl TypeError,
      \<lparr>out_dir = [(''2018-01-01_10-00-00-ping_test'', Dir [(''10.0.0.1.err'', File [])])],
       cap_dir = [], g_task = Some ping_task, sessions = [''10.0.0.1''],
       trace = [SshConnect ''10.0.0.1'', SshExec ''10.0.0.1'' ''ls'']\<rparr>)
   \<and> host_configure (lab_env (Str ''out'', Str ''boom'') (0, silent)) ''10.0.0.1'' ''ls''
     ''2018-01-01_10-00-00'' ''vagrant'' ''vagrant'' (empty_world\<lparr>g_task := Some ping_task\<rparr>)
   = (Inr (),
      \<lparr>out_dir = [(''2018-01-01_10-00-00-ping_test'',
                   Dir [(''10.0.0.1.log'', File ''out''), (''10.0.0.1.err'', File ''out'')])],
       cap_dir = [], g_task = Some ping_task, sessions = [],
       trace = [SshConnect ''10.0.0.1'', SshExec ''10.0.0.1'' ''ls'', SshClose ''10.0.0.1'']\<rparr>)"
  by code_simp

subsection \<open>Properties of the artifact collector\<close>

lemma shutil_move_replaceable:
  assumes "replaceable dst n x"
  shows "\<exists>dst'. shutil_move n x dst = Inr dst' \<and> map_of dst' = (map_of dst)(n \<mapsto> x)"
  using assms
  by (auto simp: replaceable_def shutil_move_def update_conv' fun_eq_iff map_add_def
           split: option.splits node.splits)

lemma delete_filter: "AList.delete n d = filter (\<lambda>(k, v). k \<noteq> n) d"
  by (induction d) auto

lemma move_loop_ok:
  assumes "distinct ns" and "''.'' \<notin> set ns" and "''..'' \<notin> set ns"
    and "\<forall>n \<in> set ns. \<exists>x. map_of (cap_dir w) n = Some x \<and> replaceable (out_dir w) n x"
  shows "\<exists>w'. move_loop ns w = (Inr (), w')
          \<and> cap_dir w' = filter (\<lambda>(k, v). k \<notin> set ns) (cap_dir w)
          \<and> (\<forall>n. map_of (out_dir w') n =
                (if n \<in> set ns then map_of (cap_dir w) n else map_of (out_dir w) n))
          \<and> trace w' = trace w @ map Move ns
          \<and> g_task w' = g_task w \<and> sessions w' = sessions w"
  using assms
proof (induction ns arbitrary: w)
  case Nil
  then show ?case by simp
next
  case (Cons n ns)
  from Cons.prems obtain x where x: "map_of (cap_dir w) n = Some x" "replaceable (out_dir w) n x"
    by auto
  from shutil_move_replaceable [OF x(2)] obtain dst where
    dst: "shutil_move n x (out_dir w) = Inr dst" "map_of dst = (map_of (out_dir w))(n \<mapsto> x)"
    by blast
  let ?w1 = "log_event [Move n] (w\<lparr>out_dir := dst, cap_dir := AList.delete n (cap_dir w)\<rparr>)"
  have nn: "n \<noteq> ''.''" "n \<noteq> ''..''" "n \<notin> set ns" using Cons.prems by auto
  have step: "move_loop (n # ns) w = move_loop ns ?w1"
    using nn x dst by simp
  have pre: "\<forall>m \<in> set ns. \<exists>y. map_of (cap_dir ?w1) m = Some y \<and> replaceable (out_dir ?w1) m y"
  proof
    fix m assume m: "m \<in> set ns"
    with nn have mn: "m \<noteq> n" by auto
    from m Cons.prems obtain y where y: "map_of (cap_dir w) m = Some y" "replaceable (out_dir w) m y"
      by auto
    have "map_of (cap_dir ?w1) m = Some y"
      using y mn by (simp add: log_event_def delete_conv)
    moreover have "replaceable (out_dir ?w1) m y"
      using y mn dst(2) by (simp add: log_event_def replaceable_def)
    ultimately show "\<exists>y. map_of (cap_dir ?w1) m = Some y \<and> replaceable (out_dir ?w1) m y"
      by blast
  qed
  from Cons.prems have "distinct ns" "''.'' \<notin> set ns" "''..'' \<notin> set ns" by auto
  from Cons.IH [OF this pre] obtain w' where w':
    "move_loop ns ?w1 = (Inr (), w')"
    "cap_dir w' = filter (\<lambda>(k, v). k \<notin> set ns) (cap_dir ?w1)"
    "\<forall>m. map_of (out_dir w') m =
        (if m \<in> set ns then map_of (cap_dir ?w1) m else map_of (out_dir ?w1) m)"
    "trace w' = trace ?w1 @ map Move ns"
    "g_task w' = g_task ?w1" "sessions w' = sessions ?w1"
    by blast
  have cap: "cap_dir w' = filter (\<lambda>(k, v). k \<notin> set (n # ns)) (cap_dir w)"
    using w'(2) by (simp add: log_event_def delete_filter case_prod_unfold conj_commute)
  have out: "map_of (out_dir w') m =
      (if m \<in> set (n # ns) then map_of (cap_dir w) m else map_of (out_dir w) m)" for m
    using w'(3) nn x dst(2) by (auto simp: log_event_def delete_conv)
  have "trace w' = trace w @ map Move (n # ns)"
    using w'(4) by (simp add: log_event_def)
  moreover have "g_task w' = g_task w" "sessions w' = sessions w"
    using w'(5,6) by (simp_all add: log_event_def)
  ultimately show ?case
    using step w'(1) cap out by auto
qed

lemma filter_all_names: "filter (\<lambda>(k, v). k \<notin> set (map fst d)) d = []"
  by (force simp: filter_empty_conv)

text \<open>
  Claim C7 (as amended). Let the capture directory list as the operating system lists a
  directory, and let every entry of it find its place in the output directory free or,
  when the entry is a file, taken by a file. Then the collection raises nothing and moves
  every entry: the capture directory is empty afterwards (and is still there: nothing
  removes it), every name of the capture directory now denotes, in the output directory,
  the entry the capture directory held under it (a file with its content, a directory with
  all it contains), a file of the same name being replaced, and every other name of the
  output directory denotes what it did before. The moves happen in the order of the
  listing.
\<close>

theorem move_files_collects:
  assumes "listing_ok (cap_dir w)" and "collectable (cap_dir w) (out_dir w)"
  shows "\<exists>w'. move_files w = (Inr (), w')
          \<and> cap_dir w' = []
          \<and> (\<forall>n. map_of (out_dir w') n =
                (case map_of (cap_dir w) n of Some x \<Rightarrow> Some x | None \<Rightarrow> map_of (out_dir w) n))
          \<and> trace w' = trace w @ map Move (map fst (cap_dir w))
          \<and> g_task w' = g_task w \<and> sessions w' = sessions w"
proof -
  let ?ns = "map fst (cap_dir w)"
  have pre: "\<forall>n \<in> set ?ns. \<exists>x. map_of (cap_dir w) n = Some x \<and> replaceable (out_dir w) n x"
  proof
    fix n assume "n \<in> set ?ns"
    then obtain x where nx: "(n, x) \<in> set (cap_dir w)" by auto
    with assms(1) have "map_of (cap_dir w) n = Some x" by (simp add: listing_ok_def)
    moreover from nx assms(2) have "replaceable (out_dir w) n x"
      by (auto simp: collectable_def list_all_iff)
    ultimately show "\<exists>x. map_of (cap_dir w) n = Some x \<and> replaceable (out_dir w) n x" by blast
  qed
  from assms(1) have "distinct ?ns" "''.'' \<notin> set ?ns" "''..'' \<notin> set ?ns"
    by (simp_all add: listing_ok_def)
  from move_loop_ok [OF this pre] obtain w' where w':
    "move_loop ?ns w = (Inr (), w')"
    "cap_dir w' = filter (\<lambda>(k, v). k \<notin> set ?ns) (cap_dir w)"
    "\<forall>n. map_of (out_dir w') n =
        (if n \<in> set ?ns then map_of (cap_dir w) n else map_of (out_dir w) n)"
    "trace w' = trace w @ map Move ?ns" "g_task w' = g_task w" "sessions w' = sessions w"
    by blast
  have "map_of (out_dir w') n =
      (case map_of (cap_dir w) n of Some x \<Rightarrow> Some x | None \<Rightarrow> map_of (out_dir w) n)" for n
  proof (cases "map_of (cap_dir w) n")
    case None
    then have "n \<notin> set ?ns" by (simp add: map_of_eq_None_iff)
    with None w'(3) show ?thesis by simp
  next
    case (Some x)
    then have "n \<in> set ?ns" using map_of_eq_None_iff [of "cap_dir w" n] by auto
    with Some w'(3) show ?thesis by simp
  qed
  then have out: "\<forall>n. map_of (out_dir w') n =
      (case map_of (cap_dir w) n of Some x \<Rightarrow> Some x | None \<Rightarrow> map_of (out_dir w) n)"
    by blast
  have mv: "move_files w = (Inr (), w')"
    using w'(1) by (simp add: move_files_def)
  have emp: "cap_dir w' = []"
    using w'(2) filter_all_names [of "cap_dir w"] by simp
  from mv emp out w'(4,5,6) show ?thesis by blast
qed

theorem move_files_collects_witness:
  "fst (move_files collect_world) = Inr ()
   \<and> cap_dir (snd (move_files collect_world)) = []
   \<and> map_of (out_dir (snd (move_files collect_world))) ''a.pcang'' = Some (File ''new'')
   \<and> map_of (out_dir (snd (move_files collect_world))) ''d'' = Some (Dir [(''f'', File ''y'')])
   \<and> map_of (out_dir (snd (move_files collect_world))) ''keep'' = Some (File ''k'')
   \<and> trace (snd (move_files collect_world)) = [Move ''a.pcang'', Move ''d'']"
proof -
  have "listing_ok (cap_dir collect_world)"
    and "collectable (cap_dir collect_world) (out_dir collect_world)"
    by (simp_all add: collect_world_def empty_world_def listing_ok_def collectable_def
          replaceable_def)
  from move_files_collects [OF this] obtain w' where
    "move_files collect_world = (Inr (), w')" and "cap_dir w' = []"
    and "\<forall>n. map_of (out_dir w') n =
           (case map_of (cap_dir collect_world) n of
              Some x \<Rightarrow> Some x | None \<Rightarrow> map_of (out_dir collect_world) n)"
    and "trace w' = trace collect_world @ map Move (map fst (cap_dir collect_world))"
    by blast
  then show ?thesis
    by (simp add: collect_world_def empty_world_def)
qed

text \<open>
  Claim C7 as stated fails when the output directory holds a directory under the name of
  an entry to collect: the entry is moved into that directory and nothing is replaced. The
  output directory gains no entry named \<open>a\<close> with the content \<open>x\<close>.
\<close>

theorem move_files_collects_counterexample:
  "move_files (empty_world\<lparr>cap_dir := [(''a'', File ''x'')], out_dir := [(''a'', Dir [])]\<rparr>)
   = (Inr (),
      \<lparr>out_dir = [(''a'', Dir [(''a'', File ''x'')])], cap_dir = [], g_task = None,
       sessions = [], trace = [Move ''a'']\<rparr>)"
  by code_simp

subsection \<open>Properties of the command line of the capture tool\<close>
























subsection \<open>Properties of the task orchestrator\<close>

lemma and_then_Inl: "fst (m w) = Inl x \<Longrightarrow> and_then m k w = m w"
  by (cases "m w") (simp add: and_then_def)

lemma and_then_Inr: "fst (m w) = Inr u \<Longrightarrow> and_then m k w = k (snd (m w))"
  by (cases "m w") (simp add: and_then_def)











subsection \<open>Byte strings written to text files\<close>

lemma write_text_bytes:
  "not_a_dir d n \<Longrightarrow> write_text n (Bytes b) d = (Inl TypeError, AList.update n (File []) d)"
  by (auto simp: write_text_def open_w_def not_a_dir_def split: option.splits node.splits)

lemma write_text_bytes_fails: "\<exists>x. fst (write_text n (Bytes b) d) = Inl x"
  by (auto simp: write_text_def open_w_def split: option.splits node.splits)

lemma in_subdir_fails:
  "(\<And>sub. \<exists>x. fst (f sub) = Inl x) \<Longrightarrow> \<exists>x. fst (in_subdir n f d) = Inl x"
proof -
  assume f: "\<And>sub. \<exists>x. fst (f sub) = Inl x"
  show ?thesis
  proof (cases "map_of d n")
    case None
    then show ?thesis by (simp add: in_subdir_def)
  next
    case (Some x)
    show ?thesis
    proof (cases x)
      case (File c)
      with Some show ?thesis by (simp add: in_subdir_def)
    next
      case (Dir sub)
      from f [of sub] obtain y where "fst (f sub) = Inl y" by blast
      with Some Dir show ?thesis by (cases "f sub") (simp add: in_subdir_def)
    qed
  qed
qed

lemma and_then_first_fails: "\<exists>x. fst (m w) = Inl x \<Longrightarrow> \<exists>x. fst (and_then m k w) = Inl x"
  by (auto simp: and_then_Inl)

lemma and_then_second_fails:
  assumes "\<And>v. \<exists>x. fst (k v) = Inl x"
  shows "\<exists>x. fst (and_then m k w) = Inl x"
proof (cases "fst (m w)")
  case (Inl x)
  then show ?thesis by (simp add: and_then_Inl)
next
  case (Inr u)
  then show ?thesis using assms [of "snd (m w)"] by (simp add: and_then_Inr)
qed

lemma run_command_bytes_fails:
  assumes "shlex_split (command t) = Inr argv"
    and "communicate e argv = (rc, Bytes out, Bytes err)" and "out \<noteq> [] \<or> err \<noteq> []"
  shows "\<exists>x. fst (run_command e t ts w) = Inl x"
proof (cases "popen_check e argv")
  case (Inl x)
  with assms(1) show ?thesis by (simp add: run_command_def)
next
  case (Inr u)
  let ?w1 = "log_event [CommandStart argv, CommandExit rc] w"
  let ?log = "on_out_dir (write_text (get_task_id t ts @ ''.log'') (Bytes out))"
  let ?err = "on_out_dir (write_text (get_task_id t ts @ ''.err'') (Bytes err))"
  have fails: "\<exists>x. fst (on_out_dir (write_text n (Bytes b)) v) = Inl x" for n b v
    using write_text_bytes_fails [of n b "out_dir v"] by (simp add: on_out_dir_fst)
  show ?thesis
  proof (cases "out = []")
    case True
    with assms(3) have "err \<noteq> []" by simp
    with True assms(1,2) Inr
    have "run_command e t ts w = and_then (Pair (Inr ())) ?err ?w1"
      by (simp add: run_command_def truthy_def)
    then show ?thesis using and_then_second_fails [of ?err, OF fails] by simp
  next
    case False
    with assms(1,2) Inr
    have "run_command e t ts w =
        and_then ?log (if truthy (Bytes err) then ?err else Pair (Inr ())) ?w1"
      by (simp add: run_command_def truthy_def)
    then show ?thesis using and_then_first_fails [OF fails] by simp
  qed
qed

lemma run_command_bytes_type_error:
  assumes "shlex_split (command t) = Inr argv" and "argv \<noteq> []" and "popen e argv"
    and "communicate e argv = (rc, Bytes out, Bytes err)" and "out \<noteq> [] \<or> err \<noteq> []"
    and "not_a_dir (out_dir w) (get_task_id t ts @ first_opened out)"
  shows "run_command e t ts w =
           (Inl TypeError,
            w\<lparr>out_dir := AList.update (get_task_id t ts @ first_opened out) (File []) (out_dir w),
              trace := trace w @ [CommandStart argv, CommandExit rc]\<rparr>)"
proof (cases "out = []")
  case True
  with assms show ?thesis
    by (simp add: run_command_def truthy_def popen_check_def and_then_def on_out_dir_def
          write_text_bytes first_opened_def log_event_def)
next
  case False
  with assms show ?thesis
    by (simp add: run_command_def truthy_def popen_check_def and_then_def on_out_dir_def
          write_text_bytes first_opened_def log_event_def)
qed

lemma update_fresh: "map_of d k = None \<Longrightarrow> AList.update k v d = d @ [(k, v)]"
  by (induction d) (auto split: if_splits)

lemma update_last: "map_of d k = None \<Longrightarrow> AList.update k v (d @ [(k, u)]) = d @ [(k, v)]"
  by (induction d) (auto split: if_splits)

lemma host_configure_bytes_fails:
  assumes "ssh_exec e host cmd = (Bytes out, Bytes err)" and "out \<noteq> [] \<or> err \<noteq> []"
  shows "\<exists>x. fst (host_configure e host cmd ts user pass w) = Inl x"
proof (cases "ssh_connect e host user pass")
  case False
  then show ?thesis by (simp add: host_configure_def)
next
  case True
  let ?w1 = "log_event [SshConnect host, SshExec host cmd] (w\<lparr>sessions := host # sessions w\<rparr>)"
  let ?close = "\<lambda>w. (Inr (), log_event [SshClose host] (w\<lparr>sessions := remove1 host (sessions w)\<rparr>))"
  show ?thesis
  proof (cases "g_task w")
    case None
    with True assms show ?thesis
      by (auto simp: host_configure_def truthy_def log_event_def)
  next
    case (Some t)
    let ?id = "get_task_id t ts"
    let ?log = "on_out_dir (in_subdir ?id (write_text (host @ ''.log'') (Bytes out)))"
    let ?err = "on_out_dir (in_subdir ?id (write_text (host @ ''.err'') (Bytes out)))"
    have fails: "\<exists>x. fst (on_out_dir (in_subdir ?id (write_text n (Bytes b))) v) = Inl x" for n b v
      using in_subdir_fails [of "write_text n (Bytes b)" ?id "out_dir v", OF write_text_bytes_fails]
      by (simp add: on_out_dir_fst)
    have body: "\<exists>x. fst (and_then
                     (if truthy (Bytes out) then ?log else Pair (Inr ()))
                     (and_then (if truthy (Bytes err) then ?err else Pair (Inr ())) ?close) v)
                   = Inl x" for v
    proof (cases "out = []")
      case True
      with assms(2) have e: "err \<noteq> []" by simp
      have "\<exists>x. fst (and_then ?err ?close v) = Inl x" for v
        by (rule and_then_first_fails [OF fails])
      then show ?thesis
        using True e and_then_second_fails [of "and_then ?err ?close" "Pair (Inr ())" v]
        by (simp add: truthy_def)
    next
      case False
      then show ?thesis
        using and_then_first_fails [of ?log v, OF fails] by (simp add: truthy_def)
    qed
    have "host_configure e host cmd ts user pass w =
        and_then (on_out_dir (ensure_dir ?id))
          (and_then
             (if truthy (Bytes out) then ?log else Pair (Inr ()))
             (and_then (if truthy (Bytes err) then ?err else Pair (Inr ())) ?close)) ?w1"
      using True Some assms by (auto simp: host_configure_def truthy_def Let_def log_event_def)
    then show ?thesis
      using and_then_second_fails [of _ "on_out_dir (ensure_dir ?id)" ?w1, OF body] by simp
  qed
qed

lemma host_configure_bytes_type_error:
  assumes "ssh_connect e host user pass" and "ssh_exec e host cmd = (Bytes out, Bytes err)"
    and "out \<noteq> [] \<or> err \<noteq> []" and "g_task w = Some t"
    and "not_a_file (out_dir w) (get_task_id t ts)"
    and "not_a_dir (subdir_content (out_dir w) (get_task_id t ts)) (host @ first_opened out)"
  shows "host_configure e host cmd ts user pass w =
           (Inl TypeError,
            w\<lparr>out_dir := AList.update (get_task_id t ts)
                 (Dir (AList.update (host @ first_opened out) (File [])
                         (subdir_content (out_dir w) (get_task_id t ts))))
                 (out_dir w),
              sessions := host # sessions w,
              trace := trace w @ [SshConnect host, SshExec host cmd]\<rparr>)"
proof -
  let ?id = "get_task_id t ts"
  let ?f = "host @ first_opened out"
  let ?sub = "subdir_content (out_dir w) ?id"
  obtain d1 where ens: "ensure_dir ?id (out_dir w) = (Inr (), d1)"
    by (cases "ensure_dir ?id (out_dir w)") (simp add: ensure_dir_def mkdir_def split: if_splits)
  have look: "map_of d1 ?id = Some (Dir ?sub)"
    using assms(5) ens
    by (auto simp: ensure_dir_def mkdir_def path_exists_def subdir_content_def not_a_file_def
             map_add_def split: option.splits node.splits if_splits)
  have upd: "AList.update ?id v d1 = AList.update ?id v (out_dir w)" for v
    using ens
    by (auto simp: ensure_dir_def mkdir_def path_exists_def update_fresh update_last
             split: if_splits)
  have wr: "in_subdir ?id (write_text ?f (Bytes b)) d1 =
      (Inl TypeError, AList.update ?id (Dir (AList.update ?f (File []) ?sub)) (out_dir w))" for b
    using look assms(6) by (simp add: in_subdir_def write_text_bytes upd)
  show ?thesis
  proof (cases "out = []")
    case True
    with assms(3) have "err \<noteq> []" by simp
    with True assms(1,2,4) ens wr [of out] show ?thesis
      by (simp add: host_configure_def truthy_def Let_def and_then_def on_out_dir_def
            first_opened_def log_event_def)
  next
    case False
    with assms(1,2,4) ens wr [of out] show ?thesis
      by (simp add: host_configure_def truthy_def Let_def and_then_def on_out_dir_def
            first_opened_def log_event_def)
  qed
qed

lemma write_text_dir: "\<not> not_a_dir d n \<Longrightarrow> write_text n v d = (Inl IsADirectoryError, d)"
  by (auto simp: write_text_def open_w_def not_a_dir_def split: option.splits node.splits)

lemma run_command_bytes_dir:
  assumes "shlex_split (command t) = Inr argv" and "argv \<noteq> []" and "popen e argv"
    and "communicate e argv = (rc, Bytes out, Bytes err)" and "out \<noteq> [] \<or> err \<noteq> []"
    and "\<not> not_a_dir (out_dir w) (get_task_id t ts @ first_opened out)"
  shows "run_command e t ts w =
           (Inl IsADirectoryError, w\<lparr>trace := trace w @ [CommandStart argv, CommandExit rc]\<rparr>)"
proof (cases "out = []")
  case True
  with assms show ?thesis
    by (simp add: run_command_def truthy_def popen_check_def and_then_def on_out_dir_def
          write_text_dir first_opened_def log_event_def)
next
  case False
  with assms show ?thesis
    by (simp add: run_command_def truthy_def popen_check_def and_then_def on_out_dir_def
          write_text_dir first_opened_def log_event_def)
qed

lemma run_command_bytes_files:
  assumes "shlex_split (command t) = Inr argv"
    and "communicate e argv = (rc, Bytes out, Bytes err)" and "out \<noteq> [] \<or> err \<noteq> []"
  shows "out_dir (snd (run_command e t ts w)) = out_dir w
         \<or> out_dir (snd (run_command e t ts w)) =
             AList.update (get_task_id t ts @ first_opened out) (File []) (out_dir w)"
proof (cases "argv \<noteq> [] \<and> popen e argv")
  case False
  with assms(1) have "run_command e t ts w = (Inl (if argv = [] then IndexError else LaunchError), w)"
    by (auto simp: run_command_def popen_check_def)
  then show ?thesis by simp
next
  case True
  show ?thesis
  proof (cases "not_a_dir (out_dir w) (get_task_id t ts @ first_opened out)")
    case True
    with \<open>argv \<noteq> [] \<and> popen e argv\<close> assms show ?thesis
      by (simp add: run_command_bytes_type_error)
  next
    case False
    with \<open>argv \<noteq> [] \<and> popen e argv\<close> assms show ?thesis
      by (simp add: run_command_bytes_dir)
  qed
qed

lemma host_configure_bytes_dir:
  assumes "ssh_connect e host user pass" and "ssh_exec e host cmd = (Bytes out, Bytes err)"
    and "out \<noteq> [] \<or> err \<noteq> []" and "g_task w = Some t"
    and "not_a_file (out_dir w) (get_task_id t ts)"
    and "\<not> not_a_dir (subdir_content (out_dir w) (get_task_id t ts)) (host @ first_opened out)"
  shows "host_configure e host cmd ts user pass w =
           (Inl IsADirectoryError,
            w\<lparr>sessions := host # sessions w,
              trace := trace w @ [SshConnect host, SshExec host cmd]\<rparr>)"
proof -
  let ?id = "get_task_id t ts"
  let ?f = "host @ first_opened out"
  let ?sub = "subdir_content (out_dir w) ?id"
  from assms(6) have look: "map_of (out_dir w) ?id = Some (Dir ?sub)"
    by (auto simp: subdir_content_def not_a_dir_def split: option.splits node.splits)
  then have ens: "ensure_dir ?id (out_dir w) = (Inr (), out_dir w)"
    by (simp add: ensure_dir_def path_exists_def)
  have wr: "in_subdir ?id (write_text ?f (Bytes b)) (out_dir w) = (Inl IsADirectoryError, out_dir w)"
    for b
    using look assms(6) by (simp add: in_subdir_def write_text_dir update_triv)
  show ?thesis
  proof (cases "out = []")
    case True
    with assms(3) have "err \<noteq> []" by simp
    with True assms(1,2,4) ens wr [of out] show ?thesis
      by (simp add: host_configure_def truthy_def Let_def and_then_def on_out_dir_def
            first_opened_def log_event_def)
  next
    case False
    with assms(1,2,4) ens wr [of out] show ?thesis
      by (simp add: host_configure_def truthy_def Let_def and_then_def on_out_dir_def
            first_opened_def log_event_def)
  qed
qed

lemma host_configure_bytes_files:
  assumes "ssh_exec e host cmd = (Bytes out, Bytes err)" and "out \<noteq> [] \<or> err \<noteq> []"
  shows "g_task w = None \<Longrightarrow> out_dir (snd (host_configure e host cmd ts user pass w)) = out_dir w"
    and "g_task w = Some t \<Longrightarrow>
         out_dir (snd (host_configure e host cmd ts user pass w)) = out_dir w
         \<or> out_dir (snd (host_configure e host cmd ts user pass w)) =
             AList.update (get_task_id t ts)
               (Dir (AList.update (host @ first_opened out) (File [])
                       (subdir_content (out_dir w) (get_task_id t ts))))
               (out_dir w)"
proof -
  have tr: "truthy (Bytes out) \<or> truthy (Bytes err)"
    using assms(2) by (simp add: truthy_def)
  show "out_dir (snd (host_configure e host cmd ts user pass w)) = out_dir w" if "g_task w = None"
  proof (cases "ssh_connect e host user pass")
    case False
    then show ?thesis by (simp add: host_configure_def)
  next
    case True
    from host_configure_unbound [OF True assms(1) tr that] show ?thesis by simp
  qed
  show "out_dir (snd (host_configure e host cmd ts user pass w)) = out_dir w
         \<or> out_dir (snd (host_configure e host cmd ts user pass w)) =
             AList.update (get_task_id t ts)
               (Dir (AList.update (host @ first_opened out) (File [])
                       (subdir_content (out_dir w) (get_task_id t ts))))
               (out_dir w)" if g: "g_task w = Some t"
  proof (cases "ssh_connect e host user pass")
    case False
    then show ?thesis by (simp add: host_configure_def)
  next
    case True
    show ?thesis
    proof (cases "not_a_file (out_dir w) (get_task_id t ts)")
      case False
      then obtain c where "map_of (out_dir w) (get_task_id t ts) = Some (File c)"
        by (auto simp: not_a_file_def split: option.splits node.splits)
      from host_configure_not_a_directory [OF True assms(1) tr g this] show ?thesis by simp
    next
      case nf: True
      show ?thesis
      proof (cases "not_a_dir (subdir_content (out_dir w) (get_task_id t ts))
                      (host @ first_opened out)")
        case True
        from host_configure_bytes_type_error [OF \<open>ssh_connect e host user pass\<close> assms g nf True]
        show ?thesis by simp
      next
        case False
        from host_configure_bytes_dir [OF \<open>ssh_connect e host user pass\<close> assms g nf False]
        show ?thesis by simp
      qed
    qed
  qed
qed

lemma configure_loop_bytes_fails:
  assumes "hc \<in> set hcs" and "ssh_exec e (ip hc) (hc_command hc) = (Bytes out, Bytes err)"
    and "out \<noteq> [] \<or> err \<noteq> []"
  shows "\<exists>x. fst (configure_loop e hcs ts a w) = Inl x"
  using assms(1)
proof (induction hcs arbitrary: w)
  case Nil
  then show ?case by simp
next
  case (Cons h hcs)
  show ?case
  proof (cases "hc = h")
    case True
    then show ?thesis
      using host_configure_bytes_fails [OF assms(2,3), of ts "username a" "password a" w]
      by (simp add: and_then_first_fails)
  next
    case False
    with Cons.prems have "hc \<in> set hcs" by simp
    from Cons.IH [OF this] show ?thesis
      by (simp add: and_then_second_fails)
  qed
qed

lemma process_creator_task_fails:
  assumes "(\<exists>argv rc. shlex_split (command t) = Inr argv
              \<and> communicate e argv = (rc, Bytes out, Bytes err))
           \<or> (\<exists>hcs hc. configuration t = Some hcs \<and> hc \<in> set hcs
              \<and> ssh_exec e (ip hc) (hc_command hc) = (Bytes out, Bytes err))"
    and "out \<noteq> [] \<or> err \<noteq> []"
  shows "\<exists>x. fst (process_creator_task e t cd a w) = Inl x"
proof -
  let ?ts = "strftime (localtime e (trace w))"
  let ?cfg = "case configuration t of
                None \<Rightarrow> Pair (Inr ())
              | Some hcs \<Rightarrow> configure_loop e hcs ?ts a"
  let ?after = "and_then (sleep (delay a)) (and_then terminate move_files)"
  let ?run = "and_then (run_command e t ?ts) ?after"
  let ?rest = "and_then (start_tshark e t (interface a) cd ?ts) ?run"
  have eq: "process_creator_task e t cd a w = and_then ?cfg ?rest w"
    by (simp add: process_creator_task_def Let_def)
  from assms(1) show ?thesis
  proof (elim disjE exE conjE)
    fix argv rc
    assume "shlex_split (command t) = Inr argv"
      and "communicate e argv = (rc, Bytes out, Bytes err)"
    then have "\<exists>x. fst (run_command e t ?ts v) = Inl x" for v
      using run_command_bytes_fails assms(2) by blast
    then have "\<exists>x. fst (?run v) = Inl x" for v
      by (rule and_then_first_fails)
    then have "\<exists>x. fst (?rest v) = Inl x" for v
      by (rule and_then_second_fails)
    then have "\<exists>x. fst (and_then ?cfg ?rest w) = Inl x"
      by (rule and_then_second_fails)
    with eq show ?thesis by simp
  next
    fix hcs hc
    assume "configuration t = Some hcs" and "hc \<in> set hcs"
      and "ssh_exec e (ip hc) (hc_command hc) = (Bytes out, Bytes err)"
    then have "\<exists>x. fst (?cfg w) = Inl x"
      using configure_loop_bytes_fails [of hc hcs e out err ?ts a w] assms(2) by simp
    then have "\<exists>x. fst (and_then ?cfg ?rest w) = Inl x"
      by (rule and_then_first_fails)
    with eq show ?thesis by simp
  qed
qed

lemma main_loop_fails:
  assumes "\<And>v. \<exists>x. fst (process_creator_task e t cd a v) = Inl x"
  shows "\<exists>x. fst (main_loop e (t # rest) cd a w) = Inl x"
    and "main_loop e (t # rest) cd a w = process_creator_task e t cd a (w\<lparr>g_task := Some t\<rparr>)"
proof -
  from assms [of "w\<lparr>g_task := Some t\<rparr>"] obtain x where
    x: "fst (process_creator_task e t cd a (w\<lparr>g_task := Some t\<rparr>)) = Inl x" by blast
  then have "main_loop e (t # rest) cd a w = process_creator_task e t cd a (w\<lparr>g_task := Some t\<rparr>)"
    by (simp add: and_then_Inl)
  with x show "\<exists>x. fst (main_loop e (t # rest) cd a w) = Inl x"
    and "main_loop e (t # rest) cd a w = process_creator_task e t cd a (w\<lparr>g_task := Some t\<rparr>)"
    by simp_all
qed

text \<open>
  Claim C10 (as amended). Let the captured streams be byte strings, as the collaborators
  hand them back, and one of them not empty. The local command runner then ends in an
  exception, whatever the file system holds. When no directory sits at the path of the
  first file it opens, the exception is \<open>TypeError\<close>, raised by \<open>write\<close>, and the file is
  left empty; when a directory sits there, the exception is \<open>IsADirectoryError\<close>, raised
  by \<open>open\<close>. In every case the output directory is as before or holds the one opened
  file, empty, more: no log or error file with content is written. The same holds of the
  remote host configurator, with the session connected: \<open>TypeError\<close> when the global
  \<open>task\<close> is bound, the path of the per-host directory is not taken by a file and the
  path of the first file is not taken by a directory, the opened file left empty in the
  per-host directory and the session left open; \<open>IsADirectoryError\<close>,
  \<open>NotADirectoryError\<close> or \<open>NameError\<close> otherwise; in every case the output directory is
  as before or holds the per-host directory with the one opened file, empty. In both cases
  the run is over: the loop of the main block ends in an exception with the first such task,
  and no later task is started.
\<close>

theorem bytes_output_type_error:
  assumes "out \<noteq> [] \<or> err \<noteq> []"
  shows
    "(shlex_split (command t) = Inr argv \<and> communicate e argv = (rc, Bytes out, Bytes err) \<longrightarrow>
        (argv \<noteq> [] \<and> popen e argv
           \<and> not_a_dir (out_dir w) (get_task_id t ts @ first_opened out) \<longrightarrow>
         run_command e t ts w =
           (Inl TypeError,
            w\<lparr>out_dir := AList.update (get_task_id t ts @ first_opened out) (File []) (out_dir w),
              trace := trace w @ [CommandStart argv, CommandExit rc]\<rparr>))
        \<and> (argv \<noteq> [] \<and> popen e argv
           \<and> \<not> not_a_dir (out_dir w) (get_task_id t ts @ first_opened out) \<longrightarrow>
         run_command e t ts w =
           (Inl IsADirectoryError,
            w\<lparr>trace := trace w @ [CommandStart argv, CommandExit rc]\<rparr>))
        \<and> (\<exists>x. fst (run_command e t ts w) = Inl x)
        \<and> (out_dir (snd (run_command e t ts w)) = out_dir w
           \<or> out_dir (snd (run_command e t ts w)) =
               AList.update (get_task_id t ts @ first_opened out) (File []) (out_dir w))
        \<and> (\<exists>x. fst (main_loop e (t # rest) cd a w) = Inl x)
        \<and> main_loop e (t # rest) cd a w = process_creator_task e t cd a (w\<lparr>g_task := Some t\<rparr>))
     \<and> (ssh_exec e host cmd = (Bytes out, Bytes err) \<longrightarrow>
        (ssh_connect e host user pass \<and> g_task w = Some t'
           \<and> not_a_file (out_dir w) (get_task_id t' ts)
           \<and> not_a_dir (subdir_content (out_dir w) (get_task_id t' ts)) (host @ first_opened out) \<longrightarrow>
         host_configure e host cmd ts user pass w =
           (Inl TypeError,
            w\<lparr>out_dir := AList.update (get_task_id t' ts)
                 (Dir (AList.update (host @ first_opened out) (File [])
                         (subdir_content (out_dir w) (get_task_id t' ts))))
                 (out_dir w),
              sessions := host # sessions w,
              trace := trace w @ [SshConnect host, SshExec host cmd]\<rparr>))
        \<and> (ssh_connect e host user pass \<and> g_task w = Some t'
           \<and> not_a_file (out_dir w) (get_task_id t' ts)
           \<and> \<not> not_a_dir (subdir_content (out_dir w) (get_task_id t' ts))
                 (host @ first_opened out) \<longrightarrow>
         host_configure e host cmd ts user pass w =
           (Inl IsADirectoryError,
            w\<lparr>sessions := host # sessions w,
              trace := trace w @ [SshConnect host, SshExec host cmd]\<rparr>))
        \<and> (ssh_connect e host user pass \<and> g_task w = Some t'
           \<and> \<not> not_a_file (out_dir w) (get_task_id t' ts) \<longrightarrow>
         host_configure e host cmd ts user pass w =
           (Inl NotADirectoryError,
            w\<lparr>sessions := host # sessions w,
              trace := trace w @ [SshConnect host, SshExec host cmd]\<rparr>))
        \<and> (ssh_connect e host user pass \<and> g_task w = None \<longrightarrow>
         host_configure e host cmd ts user pass w =
           (Inl NameError,
            w\<lparr>sessions := host # sessions w,
              trace := trace w @ [SshConnect host, SshExec host cmd]\<rparr>))
        \<and> (\<exists>x. fst (host_configure e host cmd ts user pass w) = Inl x)
        \<and> (g_task w = None \<longrightarrow>
             out_dir (snd (host_configure e host cmd ts user pass w)) = out_dir w)
        \<and> (g_task w = Some t' \<longrightarrow>
             out_dir (snd (host_configure e host cmd ts user pass w)) = out_dir w
             \<or> out_dir (snd (host_configure e host cmd ts user pass w)) =
                 AList.update (get_task_id t' ts)
                   (Dir (AList.update (host @ first_opened out) (File [])
                           (subdir_content (out_dir w) (get_task_id t' ts))))
                   (out_dir w))
        \<and> (\<forall>hcs. configuration t = Some hcs \<and> \<lparr>ip = host, hc_command = cmd\<rparr> \<in> set hcs \<longrightarrow>
             (\<exists>x. fst (main_loop e (t # rest) cd a w) = Inl x)
             \<and> main_loop e (t # rest) cd a w =
                 process_creator_task e t cd a (w\<lparr>g_task := Some t\<rparr>)))"
proof -
  have tr: "truthy (Bytes out) \<or> truthy (Bytes err)"
    using assms by (simp add: truthy_def)
  have local: "(argv \<noteq> [] \<and> popen e argv
           \<and> not_a_dir (out_dir w) (get_task_id t ts @ first_opened out) \<longrightarrow>
         run_command e t ts w =
           (Inl TypeError,
            w\<lparr>out_dir := AList.update (get_task_id t ts @ first_opened out) (File []) (out_dir w),
              trace := trace w @ [CommandStart argv, CommandExit rc]\<rparr>))
        \<and> (argv \<noteq> [] \<and> popen e argv
           \<and> \<not> not_a_dir (out_dir w) (get_task_id t ts @ first_opened out) \<longrightarrow>
         run_command e t ts w =
           (Inl IsADirectoryError,
            w\<lparr>trace := trace w @ [CommandStart argv, CommandExit rc]\<rparr>))
        \<and> (\<exists>x. fst (run_command e t ts w) = Inl x)
        \<and> (out_dir (snd (run_command e t ts w)) = out_dir w
           \<or> out_dir (snd (run_command e t ts w)) =
               AList.update (get_task_id t ts @ first_opened out) (File []) (out_dir w))
        \<and> (\<exists>x. fst (main_loop e (t # rest) cd a w) = Inl x)
        \<and> main_loop e (t # rest) cd a w = process_creator_task e t cd a (w\<lparr>g_task := Some t\<rparr>)"
    if h: "shlex_split (command t) = Inr argv \<and> communicate e argv = (rc, Bytes out, Bytes err)"
  proof -
    from h have s: "shlex_split (command t) = Inr argv"
      and c: "communicate e argv = (rc, Bytes out, Bytes err)" by simp_all
    from h have run: "\<exists>argv rc. shlex_split (command t) = Inr argv
        \<and> communicate e argv = (rc, Bytes out, Bytes err)" by blast
    have task: "\<exists>x. fst (process_creator_task e t cd a v) = Inl x" for v
      by (rule process_creator_task_fails [OF disjI1 [OF run] assms])
    have 1: "argv \<noteq> [] \<and> popen e argv
           \<and> not_a_dir (out_dir w) (get_task_id t ts @ first_opened out) \<longrightarrow>
         run_command e t ts w =
           (Inl TypeError,
            w\<lparr>out_dir := AList.update (get_task_id t ts @ first_opened out) (File []) (out_dir w),
              trace := trace w @ [CommandStart argv, CommandExit rc]\<rparr>)"
      using run_command_bytes_type_error [OF s _ _ c assms] by simp
    have 2: "argv \<noteq> [] \<and> popen e argv
           \<and> \<not> not_a_dir (out_dir w) (get_task_id t ts @ first_opened out) \<longrightarrow>
         run_command e t ts w =
           (Inl IsADirectoryError,
            w\<lparr>trace := trace w @ [CommandStart argv, CommandExit rc]\<rparr>)"
      using run_command_bytes_dir [OF s _ _ c assms] by simp
    have 3: "\<exists>x. fst (run_command e t ts w) = Inl x"
      by (rule run_command_bytes_fails [OF s c assms])
    have 4: "out_dir (snd (run_command e t ts w)) = out_dir w
           \<or> out_dir (snd (run_command e t ts w)) =
               AList.update (get_task_id t ts @ first_opened out) (File []) (out_dir w)"
      by (rule run_command_bytes_files [OF s c assms])
    have 5: "\<exists>x. fst (main_loop e (t # rest) cd a w) = Inl x"
      by (rule main_loop_fails(1) [OF task])
    have 6: "main_loop e (t # rest) cd a w = process_creator_task e t cd a (w\<lparr>g_task := Some t\<rparr>)"
      by (rule main_loop_fails(2) [OF task])
    show ?thesis
      by (rule conjI [OF 1 conjI [OF 2 conjI [OF 3 conjI [OF 4 conjI [OF 5 6]]]]])
  qed
  have remote: "(ssh_connect e host user pass \<and> g_task w = Some t'
           \<and> not_a_file (out_dir w) (get_task_id t' ts)
           \<and> not_a_dir (subdir_content (out_dir w) (get_task_id t' ts)) (host @ first_opened out) \<longrightarrow>
         host_configure e host cmd ts user pass w =
           (Inl TypeError,
            w\<lparr>out_dir := AList.update (get_task_id t' ts)
                 (Dir (AList.update (host @ first_opened out) (File [])
                         (subdir_content (out_dir w) (get_task_id t' ts))))
                 (out_dir w),
              sessions := host # sessions w,
              trace := trace w @ [SshConnect host, SshExec host cmd]\<rparr>))
        \<and> (ssh_connect e host user pass \<and> g_task w = Some t'
           \<and> not_a_file (out_dir w) (get_task_id t' ts)
           \<and> \<not> not_a_dir (subdir_content (out_dir w) (get_task_id t' ts))
                 (host @ first_opened out) \<longrightarrow>
         host_configure e host cmd ts user pass w =
           (Inl IsADirectoryError,
            w\<lparr>sessions := host # sessions w,
              trace := trace w @ [SshConnect host, SshExec host cmd]\<rparr>))
        \<and> (ssh_connect e host user pass \<and> g_task w = Some t'
           \<and> \<not> not_a_file (out_dir w) (get_task_id t' ts) \<longrightarrow>
         host_configure e host cmd ts user pass w =
           (Inl NotADirectoryError,
            w\<lparr>sessions := host # sessions w,
              trace := trace w @ [SshConnect host, SshExec host cmd]\<rparr>))
        \<and> (ssh_connect e host user pass \<and> g_task w = None \<longrightarrow>
         host_configure e host cmd ts user pass w =
           (Inl NameError,
            w\<lparr>sessions := host # sessions w,
              trace := trace w @ [SshConnect host, SshExec host cmd]\<rparr>))
        \<and> (\<exists>x. fst (host_configure e host cmd ts user pass w) = Inl x)
        \<and> (g_task w = None \<longrightarrow>
             out_dir (snd (host_configure e host cmd ts user pass w)) = out_dir w)
        \<and> (g_task w = Some t' \<longrightarrow>
             out_dir (snd (host_configure e host cmd ts user pass w)) = out_dir w
             \<or> out_dir (snd (host_configure e host cmd ts user pass w)) =
                 AList.update (get_task_id t' ts)
                   (Dir (AList.update (host @ first_opened out) (File [])
                           (subdir_content (out_dir w) (get_task_id t' ts))))
                   (out_dir w))
        \<and> (\<forall>hcs. configuration t = Some hcs \<and> \<lparr>ip = host, hc_command = cmd\<rparr> \<in> set hcs \<longrightarrow>
             (\<exists>x. fst (main_loop e (t # rest) cd a w) = Inl x)
             \<and> main_loop e (t # rest) cd a w =
                 process_creator_task e t cd a (w\<lparr>g_task := Some t\<rparr>))"
    if h: "ssh_exec e host cmd = (Bytes out, Bytes err)"
  proof -
    have 1: "ssh_connect e host user pass \<and> g_task w = Some t'
           \<and> not_a_file (out_dir w) (get_task_id t' ts)
           \<and> not_a_dir (subdir_content (out_dir w) (get_task_id t' ts)) (host @ first_opened out) \<longrightarrow>
         host_configure e host cmd ts user pass w =
           (Inl TypeError,
            w\<lparr>out_dir := AList.update (get_task_id t' ts)
                 (Dir (AList.update (host @ first_opened out) (File [])
                         (subdir_content (out_dir w) (get_task_id t' ts))))
                 (out_dir w),
              sessions := host # sessions w,
              trace := trace w @ [SshConnect host, SshExec host cmd]\<rparr>)"
      using host_configure_bytes_type_error [OF _ h assms] by simp
    have 2: "ssh_connect e host user pass \<and> g_task w = Some t'
           \<and> not_a_file (out_dir w) (get_task_id t' ts)
           \<and> \<not> not_a_dir (subdir_content (out_dir w) (get_task_id t' ts))
                 (host @ first_opened out) \<longrightarrow>
         host_configure e host cmd ts user pass w =
           (Inl IsADirectoryError,
            w\<lparr>sessions := host # sessions w,
              trace := trace w @ [SshConnect host, SshExec host cmd]\<rparr>)"
      using host_configure_bytes_dir [OF _ h assms] by simp
    have 3: "ssh_connect e host user pass \<and> g_task w = Some t'
           \<and> \<not> not_a_file (out_dir w) (get_task_id t' ts) \<longrightarrow>
         host_configure e host cmd ts user pass w =
           (Inl NotADirectoryError,
            w\<lparr>sessions := host # sessions w,
              trace := trace w @ [SshConnect host, SshExec host cmd]\<rparr>)"
    proof
      assume a: "ssh_connect e host user pass \<and> g_task w = Some t'
           \<and> \<not> not_a_file (out_dir w) (get_task_id t' ts)"
      then obtain c where "map_of (out_dir w) (get_task_id t' ts) = Some (File c)"
        by (auto simp: not_a_file_def split: option.splits node.splits)
      with a show "host_configure e host cmd ts user pass w =
           (Inl NotADirectoryError,
            w\<lparr>sessions := host # sessions w,
              trace := trace w @ [SshConnect host, SshExec host cmd]\<rparr>)"
        using host_configure_not_a_directory [OF _ h tr] by simp
    qed
    have 4: "ssh_connect e host user pass \<and> g_task w = None \<longrightarrow>
         host_configure e host cmd ts user pass w =
           (Inl NameError,
            w\<lparr>sessions := host # sessions w,
              trace := trace w @ [SshConnect host, SshExec host cmd]\<rparr>)"
      using host_configure_unbound [OF _ h tr] by simp
    have 5: "\<exists>x. fst (host_configure e host cmd ts user pass w) = Inl x"
      by (rule host_configure_bytes_fails [OF h assms])
    have 6: "g_task w = None \<longrightarrow>
             out_dir (snd (host_configure e host cmd ts user pass w)) = out_dir w"
      using host_configure_bytes_files(1) [OF h assms] by simp
    have 7: "g_task w = Some t' \<longrightarrow>
             out_dir (snd (host_configure e host cmd ts user pass w)) = out_dir w
             \<or> out_dir (snd (host_configure e host cmd ts user pass w)) =
                 AList.update (get_task_id t' ts)
                   (Dir (AList.update (host @ first_opened out) (File [])
                           (subdir_content (out_dir w) (get_task_id t' ts))))
                   (out_dir w)"
      using host_configure_bytes_files(2) [OF h assms] by simp
    have 8: "\<forall>hcs. configuration t = Some hcs \<and> \<lparr>ip = host, hc_command = cmd\<rparr> \<in> set hcs \<longrightarrow>
             (\<exists>x. fst (main_loop e (t # rest) cd a w) = Inl x)
             \<and> main_loop e (t # rest) cd a w =
                 process_creator_task e t cd a (w\<lparr>g_task := Some t\<rparr>)"
    proof (intro allI impI)
      fix hcs
      assume c: "configuration t = Some hcs \<and> \<lparr>ip = host, hc_command = cmd\<rparr> \<in> set hcs"
      with h have cfg: "\<exists>hcs hc. configuration t = Some hcs \<and> hc \<in> set hcs
          \<and> ssh_exec e (ip hc) (hc_command hc) = (Bytes out, Bytes err)"
        by (intro exI [of _ hcs] exI [of _ "\<lparr>ip = host, hc_command = cmd\<rparr>"]) simp
      have task: "\<exists>x. fst (process_creator_task e t cd a v) = Inl x" for v
        by (rule process_creator_task_fails [OF disjI2 [OF cfg] assms])
      show "(\<exists>x. fst (main_loop e (t # rest) cd a w) = Inl x)
             \<and> main_loop e (t # rest) cd a w =
                 process_creator_task e t cd a (w\<lparr>g_task := Some t\<rparr>)"
        by (rule conjI [OF main_loop_fails(1) [OF task] main_loop_fails(2) [OF task]])
    qed
    show ?thesis
      by (rule conjI [OF 1 conjI [OF 2 conjI [OF 3 conjI [OF 4 conjI [OF 5 conjI [OF 6
            conjI [OF 7 8]]]]]]])
  qed
  show ?thesis
    by (rule conjI [OF impI [OF local] impI [OF remote]])
qed

theorem bytes_output_type_error_witness:
  "run_command (lab_env silent (1, Bytes [], Bytes ''unknown host'')) ping_task
     ''2018-01-01_10-00-00'' empty_world
   = (Inl TypeError,
      \<lparr>out_dir = [(''2018-01-01_10-00-00-ping_test.err'', File [])],
       cap_dir = [], g_task = None, sessions = [],
       trace = [CommandStart [''ping'', ''-c1'', ''localhost''], CommandExit 1]\<rparr>)
   \<and> fst (main_loop (lab_env silent (1, Bytes [], Bytes ''unknown host'')) [ping_task, filter_task]
          ''/tmp/capture'' lab_args empty_world) = Inl TypeError"
proof -
  let ?e = "lab_env silent (1, Bytes [], Bytes ''unknown host'')"
  let ?argv = "[''ping'', ''-c1'', ''localhost'']"
  have h0: "([] :: bytes) \<noteq> [] \<or> ''unknown host'' \<noteq> []"
    by simp
  have h1: "shlex_split (command ping_task) = Inr ?argv
      \<and> communicate ?e ?argv = (1, Bytes [], Bytes ''unknown host'')"
    by code_simp
  have h2: "?argv \<noteq> [] \<and> popen ?e ?argv
      \<and> not_a_dir (out_dir empty_world)
            (get_task_id ping_task ''2018-01-01_10-00-00'' @ first_opened [])"
    by code_simp
  note run = bytes_output_type_error [OF h0, THEN conjunct1, THEN mp, OF h1]
  have "run_command ?e ping_task ''2018-01-01_10-00-00'' empty_world =
      (Inl TypeError,
       empty_world\<lparr>out_dir := AList.update
            (get_task_id ping_task ''2018-01-01_10-00-00'' @ first_opened []) (File [])
            (out_dir empty_world),
          trace := trace empty_world @ [CommandStart ?argv, CommandExit 1]\<rparr>)"
    by (rule run [THEN conjunct1, THEN mp, OF h2])
  moreover have "(Inl TypeError :: error + unit,
       empty_world\<lparr>out_dir := AList.update
            (get_task_id ping_task ''2018-01-01_10-00-00'' @ first_opened []) (File [])
            (out_dir empty_world),
          trace := trace empty_world @ [CommandStart ?argv, CommandExit 1]\<rparr>)
    = (Inl TypeError,
       \<lparr>out_dir = [(''2018-01-01_10-00-00-ping_test.err'', File [])],
        cap_dir = [], g_task = None, sessions = [],
        trace = [CommandStart ?argv, CommandExit 1]\<rparr>)"
    by code_simp
  moreover have "fst (main_loop ?e [ping_task, filter_task] ''/tmp/capture'' lab_args empty_world)
      = Inl TypeError"
    by code_simp
  ultimately show ?thesis by simp
qed

text \<open>
  Claim C10 as stated fails when the path of the file to open is taken: with a directory
  at the path of the log file the local command runner raises \<open>IsADirectoryError\<close>, and
  with a file at the path of the per-host directory the remote host configurator raises
  \<open>NotADirectoryError\<close>. Neither is a type error, and no file is opened.
\<close>

theorem bytes_output_type_error_counterexample:
  "run_command (lab_env silent (0, Bytes ''PING'', Bytes [])) ping_task ''2018-01-01_10-00-00''
     (empty_world\<lparr>out_dir := [(''2018-01-01_10-00-00-ping_test.log'', Dir [])]\<rparr>)
   = (Inl IsADirectoryError,
      \<lparr>out_dir = [(''2018-01-01_10-00-00-ping_test.log'', Dir [])],
       cap_dir = [], g_task = None, sessions = [],
       trace = [CommandStart [''ping'', ''-c1'', ''localhost''], CommandExit 0]\<rparr>)
   \<and> host_configure (lab_env (Bytes ''out'', Bytes []) (0, silent)) ''10.0.0.1'' ''ls''
       ''2018-01-01_10-00-00'' ''vagrant'' ''vagrant''
       (empty_world\<lparr>g_task := Some ping_task,
                     out_dir := [(''2018-01-01_10-00-00-ping_test'', File ''x'')]\<rparr>)
     = (Inl NotADirectoryError,
        \<lparr>out_dir = [(''2018-01-01_10-00-00-ping_test'', File ''x'')], cap_dir = [],
         g_task = Some ping_task, sessions = [''10.0.0.1''],
         trace = [SshConnect ''10.0.0.1'', SshExec ''10.0.0.1'' ''ls'']\<rparr>)"
  by code_simp

subsection \<open>The first end-to-end scenario\<close>

text \<open>
  Claim C8 does not hold of the code. The command of the task \<open>Ping Test\<close> prints to its
  standard output. The runner opens the log file in text mode and calls \<open>write\<close> with the
  captured bytes: the call raises \<open>TypeError\<close>, and the log file, directly in the output
  directory, is left empty.
\<close>

theorem run_command_log_file:
  "run_command (lab_env silent (0, Bytes ''PING'', Bytes [])) ping_task ''2018-01-01_10-00-00''
     empty_world
   = (Inl TypeError,
      \<lparr>out_dir = [(''2018-01-01_10-00-00-ping_test.log'', File [])],
       cap_dir = [], g_task = None, sessions = [],
       trace = [CommandStart [''ping'', ''-c1'', ''localhost''], CommandExit 0]\<rparr>)"
  by code_simp

text \<open>
  Claim C5 does not hold of the code. The capture file of the task \<open>Ping Test\<close> has the
  extension \<open>pcang\<close>: this is the name in the invocation (quiet, on the interface, in
  the format \<open>pcapng\<close>), and the name of the file collected into the output directory
  when the command prints nothing. When the command prints to its standard output, as
  \<open>ping\<close> does, the run stops with \<open>TypeError\<close> before the capture is stopped and
  collected: the capture file stays in the capture directory.
\<close>

theorem capture_file_extension:
  "capture_file_name ping_task ''2018-01-01_10-00-00'' = ''2018-01-01_10-00-00-ping_test.pcang''
   \<and> shlex_split (tshark_command ping_task ''enp0s8'' ''/tmp/capture'' ''2018-01-01_10-00-00'')
     = Inr [''tshark'', ''-i'', ''enp0s8'', ''-q'', ''-w'',
            ''/tmp/capture/2018-01-01_10-00-00-ping_test.pcang'', ''-F'', ''pcapng'']
   \<and> process_creator_task (lab_env silent (0, silent)) ping_task ''/tmp/capture'' lab_args
       empty_world
     = (Inr (),
        \<lparr>out_dir = [(''2018-01-01_10-00-00-ping_test.pcang'', File ''packets'')],
         cap_dir = [], g_task = None, sessions = [],
         trace =
           [CaptureStart [''tshark'', ''-i'', ''enp0s8'', ''-q'', ''-w'',
              ''/tmp/capture/2018-01-01_10-00-00-ping_test.pcang'', ''-F'', ''pcapng''],
            CommandStart [''ping'', ''-c1'', ''localhost''], CommandExit 0,
            Sleep 3, CaptureTerminate, Move ''2018-01-01_10-00-00-ping_test.pcang'']\<rparr>)
   \<and> process_creator_task (lab_env silent (0, Bytes ''PING localhost'', Bytes [])) ping_task
       ''/tmp/capture'' lab_args empty_world
     = (Inl TypeError,
        \<lparr>out_dir = [(''2018-01-01_10-00-00-ping_test.log'', File [])],
         cap_dir = [(''2018-01-01_10-00-00-ping_test.pcang'', File ''packets'')],
         g_task = None, sessions = [],
         trace =
           [CaptureStart [''tshark'', ''-i'', ''enp0s8'', ''-q'', ''-w'',
              ''/tmp/capture/2018-01-01_10-00-00-ping_test.pcang'', ''-F'', ''pcapng''],
            CommandStart [''ping'', ''-c1'', ''localhost''], CommandExit 0]\<rparr>)"
  by code_simp

end
